theory Spec2Isabelle
  imports Complex_Main "HOL-Library.Sublist"
begin

section \<open>JavaScript strings\<close>

text \<open>
  A JavaScript string is a sequence of UTF-16 code units.  A code unit is modelled by its
  numeric value (a natural number below 65536), a string by the list of its code units.
  None of the regular expressions of the sources carries the \<^verbatim>\<open>u\<close> flag, so every string
  operation below works on single code units, as the engine does.
\<close>

type_synonym jschar = nat
type_synonym jsstring = "jschar list"

abbreviation S :: "string \<Rightarrow> jsstring" where
  "S cs \<equiv> map of_char cs"

text \<open>
  ECMAScript \<^verbatim>\<open>WhiteSpace\<close> and \<^verbatim>\<open>LineTerminator\<close> code units: TAB, LF, VT, FF, CR, SP,
  NBSP, the other members of Unicode category Zs, LS, PS and the byte order mark.
  \<^verbatim>\<open>String.prototype.trim\<close> and the class \<^verbatim>\<open>\s\<close> both use this set.
\<close>

definition isWhiteSpace :: "jschar \<Rightarrow> bool" where
  "isWhiteSpace c \<longleftrightarrow>
     c = 9 \<or> c = 10 \<or> c = 11 \<or> c = 12 \<or> c = 13 \<or> c = 32 \<or> c = 160 \<or> c = 5760 \<or>
     (8192 \<le> c \<and> c \<le> 8202) \<or> c = 8232 \<or> c = 8233 \<or> c = 8239 \<or> c = 8287 \<or>
     c = 12288 \<or> c = 65279"

definition trim :: "jsstring \<Rightarrow> jsstring" where
  "trim s = rev (dropWhile isWhiteSpace (rev (dropWhile isWhiteSpace s)))"

definition startsWith :: "jsstring \<Rightarrow> jsstring \<Rightarrow> bool" where
  "startsWith s p \<longleftrightarrow> take (length p) s = p"

text \<open>\<^verbatim>\<open>s.includes(p)\<close>: \<^verbatim>\<open>p\<close> occurs in \<^verbatim>\<open>s\<close> as a contiguous substring.\<close>

fun includes_str :: "jsstring \<Rightarrow> jsstring \<Rightarrow> bool" where
  "includes_str [] p = (p = [])"
| "includes_str (c # cs) p = (startsWith (c # cs) p \<or> includes_str cs p)"

text \<open>\<^verbatim>\<open>s.split('\n')\<close>; the result is never empty (\<^verbatim>\<open>''.split('\n')\<close> is \<^verbatim>\<open>['']\<close>).\<close>

fun split_nl :: "jsstring \<Rightarrow> jsstring list" where
  "split_nl [] = [[]]"
| "split_nl (c # cs) =
     (if c = 10 then [] # split_nl cs
      else (case split_nl cs of [] \<Rightarrow> [[c]] | l # ls \<Rightarrow> (c # l) # ls))"

text \<open>\<^verbatim>\<open>ls.join('\n')\<close>\<close>

fun join_nl :: "jsstring list \<Rightarrow> jsstring" where
  "join_nl [] = []"
| "join_nl [l] = l"
| "join_nl (l # ls) = l @ 10 # join_nl ls"

section \<open>Fence stripping (\<^verbatim>\<open>services/ai-service.ts\<close>)\<close>

text \<open>
  \<^verbatim>\<open>matchFence p s\<close> is the match of the regular expression \<^verbatim>\<open>p\n?\<close> at the very start of
  \<^verbatim>\<open>s\<close>, for a literal \<^verbatim>\<open>p\<close>: the text after the match, the optional line feed taken
  greedily.
\<close>

definition matchFence :: "jsstring \<Rightarrow> jsstring \<Rightarrow> jsstring option" where
  "matchFence p s =
     (if startsWith s p
      then (case drop (length p) s of
              [] \<Rightarrow> Some []
            | d # ds \<Rightarrow> if d = 10 then Some ds else Some (d # ds))
      else None)"

text \<open>
  \<^verbatim>\<open>s.replace(/p\n?/g, '')\<close> for a literal \<^verbatim>\<open>p\<close>: the matches are found from left to right,
  each search starting where the previous match ended, and every match is deleted.
  A match of a non-empty \<^verbatim>\<open>p\<close> always shortens the text, which is what the test on the
  lengths records.
\<close>

function replaceFence :: "jsstring \<Rightarrow> jsstring \<Rightarrow> jsstring" where
  "replaceFence p s =
     (case s of
        [] \<Rightarrow> []
      | c # cs \<Rightarrow>
          (case matchFence p s of
             Some r \<Rightarrow> if length r < length s then replaceFence p r else r
           | None \<Rightarrow> c # replaceFence p cs))"
  by pat_completeness auto
termination
  by (relation "measure (\<lambda>(p, s). length s)") auto

declare replaceFence.simps [simp del]

definition fence :: jsstring where
  "fence = S ''```''"

definition fenceJson :: jsstring where
  "fenceJson = S ''```json''"

text \<open>
  The first statement of each of the six parsers:
  \<^verbatim>\<open>response.replace(/```json\n?/g, '').replace(/```\n?/g, '').trim()\<close>
\<close>

definition clean :: "jsstring \<Rightarrow> jsstring" where
  "clean response = trim (replaceFence fence (replaceFence fenceJson response))"

section \<open>API key handling (\<^verbatim>\<open>services/ai-service.ts\<close>)\<close>

text \<open>\<^verbatim>\<open>apiKey.trim().replace(/[^\x00-\x7F]/g, '')\<close>\<close>

definition sanitizeApiKey :: "jsstring \<Rightarrow> jsstring" where
  "sanitizeApiKey apiKey = filter (\<lambda>c. c \<le> 127) (trim apiKey)"

text \<open>
  The guard at the head of \<^verbatim>\<open>callAI\<close>:
  \<^verbatim>\<open>!config.apiKey || config.apiKey.trim() === ''\<close>; when it holds the missing-key error
  is thrown before any provider is called.
\<close>

definition apiKeyMissing :: "jsstring \<Rightarrow> bool" where
  "apiKeyMissing apiKey \<longleftrightarrow> apiKey = [] \<or> trim apiKey = []"

section \<open>JSON values and \<^verbatim>\<open>JSON.parse\<close>\<close>

text \<open>
  The values \<^verbatim>\<open>JSON.parse\<close> can return.  A number literal is kept as the rational number
  it denotes; the engine stores the IEEE double nearest to it.  An object is the list of
  its own properties in creation order, every key at most once.
\<close>

datatype json =
    JNull
  | JBool bool
  | JNumber rat
  | JString jsstring
  | JArray "json list"
  | JObject "(jsstring \<times> json) list"

text \<open>The two exceptions that can arise inside the \<^verbatim>\<open>try\<close> blocks of the parsers.\<close>

datatype js_exn = SyntaxError | TypeError

definition isJsonWs :: "jschar \<Rightarrow> bool" where
  "isJsonWs c \<longleftrightarrow> c = 32 \<or> c = 9 \<or> c = 10 \<or> c = 13"

definition skipWs :: "jsstring \<Rightarrow> jsstring" where
  "skipWs s = dropWhile isJsonWs s"

definition isDigit :: "jschar \<Rightarrow> bool" where
  "isDigit c \<longleftrightarrow> 48 \<le> c \<and> c \<le> 57"

definition digitsValue :: "jsstring \<Rightarrow> nat" where
  "digitsValue ds = foldl (\<lambda>a c. 10 * a + (c - 48)) 0 ds"

definition hexValue :: "jschar \<Rightarrow> nat option" where
  "hexValue c =
     (if 48 \<le> c \<and> c \<le> 57 then Some (c - 48)
      else if 97 \<le> c \<and> c \<le> 102 then Some (c - 87)
      else if 65 \<le> c \<and> c \<le> 70 then Some (c - 55)
      else None)"

text \<open>
  A JSON number: \<^verbatim>\<open>-? (0 | [1-9][0-9]*) (. [0-9]+)? ([eE] [+-]? [0-9]+)?\<close>.
  The result is the number denoted and the text after it.
\<close>

definition parseNumber :: "jsstring \<Rightarrow> (rat \<times> jsstring) option" where
  "parseNumber s =
     (let (neg, s1) = (case s of [] \<Rightarrow> (False, s) | c # cs \<Rightarrow> if c = 45 then (True, cs) else (False, s));
          ip = (case s1 of [] \<Rightarrow> [] | c # cs \<Rightarrow> if c = 48 then [c] else takeWhile isDigit s1);
          s2 = drop (length ip) s1
      in if ip = [] then None
         else
           (let (fd, fracOk, s3) =
                  (case s2 of
                     [] \<Rightarrow> ([], True, s2)
                   | c # cs \<Rightarrow>
                       if c = 46
                       then (takeWhile isDigit cs, takeWhile isDigit cs \<noteq> [], dropWhile isDigit cs)
                       else ([], True, s2));
                (eneg, ed, expOk, s4) =
                  (case s3 of
                     [] \<Rightarrow> (False, [], True, s3)
                   | c # cs \<Rightarrow>
                       if c = 101 \<or> c = 69
                       then (let (en, s') =
                                   (case cs of
                                      [] \<Rightarrow> (False, cs)
                                    | d # ds \<Rightarrow>
                                        if d = 45 then (True, ds)
                                        else if d = 43 then (False, ds)
                                        else (False, cs))
                             in (en, takeWhile isDigit s', takeWhile isDigit s' \<noteq> [],
                                 dropWhile isDigit s'))
                       else (False, [], True, s3));
                m = of_nat (digitsValue ip) + of_nat (digitsValue fd) / 10 ^ length fd;
                v = (if eneg then m / 10 ^ digitsValue ed else m * 10 ^ digitsValue ed)
            in if fracOk \<and> expOk then Some (if neg then - v else v, s4) else None))"

text \<open>
  The characters of a JSON string after its opening quote, up to and including the
  closing quote.  Control characters below U+0020 must be escaped.
\<close>

fun parseString :: "jsstring \<Rightarrow> (jsstring \<times> jsstring) option" where
  "parseString [] = None"
| "parseString (c # cs) =
     (if c = 34 then Some ([], cs)
      else if c = 92 then
        (case cs of
           [] \<Rightarrow> None
         | e # r \<Rightarrow>
             if e = 117 then
               (case r of
                  h1 # h2 # h3 # h4 # r' \<Rightarrow>
                    (case (hexValue h1, hexValue h2, hexValue h3, hexValue h4) of
                       (Some a, Some b, Some c', Some d) \<Rightarrow>
                         (case parseString r' of
                            None \<Rightarrow> None
                          | Some (t, rest) \<Rightarrow> Some ((4096 * a + 256 * b + 16 * c' + d) # t, rest))
                     | _ \<Rightarrow> None)
                | _ \<Rightarrow> None)
             else
               (case (if e = 34 then Some 34 else if e = 92 then Some 92
                      else if e = 47 then Some 47 else if e = 98 then Some 8
                      else if e = 102 then Some 12 else if e = 110 then Some 10
                      else if e = 114 then Some 13 else if e = 116 then Some (9::nat)
                      else None) of
                  None \<Rightarrow> None
                | Some u \<Rightarrow>
                    (case parseString r of
                       None \<Rightarrow> None
                     | Some (t, rest) \<Rightarrow> Some (u # t, rest))))
      else if c < 32 then None
      else (case parseString cs of
              None \<Rightarrow> None
            | Some (t, rest) \<Rightarrow> Some (c # t, rest)))"

text \<open>
  Creating a property: a key that the object already has keeps its place and takes the
  new value (a duplicate key in JSON text), a new key goes to the end.
\<close>

fun setProp :: "jsstring \<Rightarrow> json \<Rightarrow> (jsstring \<times> json) list \<Rightarrow> (jsstring \<times> json) list" where
  "setProp k v [] = [(k, v)]"
| "setProp k v ((k', v') # kvs) =
     (if k' = k then (k, v) # kvs else (k', v') # setProp k v kvs)"

text \<open>
  The JSON grammar.  \<^verbatim>\<open>parseValue s\<close> reads one value at the head of \<^verbatim>\<open>s\<close>;
  \<^verbatim>\<open>parseElements s acc\<close> reads the elements of an array from the first element to the closing
  bracket; \<^verbatim>\<open>parseMembers s acc\<close> reads the members of an object from the first key to the
  closing brace.  Each returns the text left over.  A value is never empty, so the text
  after an element is shorter than the text before it; the tests on the lengths record
  that.
\<close>

function parseValue :: "jsstring \<Rightarrow> (json \<times> jsstring) option"
  and parseElements :: "jsstring \<Rightarrow> json list \<Rightarrow> (json list \<times> jsstring) option"
  and parseMembers ::
    "jsstring \<Rightarrow> (jsstring \<times> json) list \<Rightarrow> ((jsstring \<times> json) list \<times> jsstring) option"
where
  "parseValue s =
     (case s of
        [] \<Rightarrow> None
      | c # cs \<Rightarrow>
          if c = 123 then
            (case skipWs cs of
               [] \<Rightarrow> None
             | d # ds \<Rightarrow>
                 if d = 125 then Some (JObject [], ds)
                 else (case parseMembers (skipWs cs) [] of
                         None \<Rightarrow> None
                       | Some (kvs, rest) \<Rightarrow> Some (JObject kvs, rest)))
          else if c = 91 then
            (case skipWs cs of
               [] \<Rightarrow> None
             | d # ds \<Rightarrow>
                 if d = 93 then Some (JArray [], ds)
                 else (case parseElements (skipWs cs) [] of
                         None \<Rightarrow> None
                       | Some (vs, rest) \<Rightarrow> Some (JArray vs, rest)))
          else if c = 34 then
            (case parseString cs of
               None \<Rightarrow> None
             | Some (str, rest) \<Rightarrow> Some (JString str, rest))
          else if startsWith s (S ''null'') then Some (JNull, drop 4 s)
          else if startsWith s (S ''true'') then Some (JBool True, drop 4 s)
          else if startsWith s (S ''false'') then Some (JBool False, drop 5 s)
          else (case parseNumber s of
                  None \<Rightarrow> None
                | Some (q, rest) \<Rightarrow> Some (JNumber q, rest)))"
| "parseElements s acc =
     (case parseValue s of
        None \<Rightarrow> None
      | Some (v, rest) \<Rightarrow>
          (case skipWs rest of
             [] \<Rightarrow> None
           | d # ds \<Rightarrow>
               if d = 93 then Some (acc @ [v], ds)
               else if d = 44 \<and> length ds < length s
               then parseElements (skipWs ds) (acc @ [v])
               else None))"
| "parseMembers s acc =
     (case s of
        [] \<Rightarrow> None
      | q # qs \<Rightarrow>
          if q = 34 then
            (case parseString qs of
               None \<Rightarrow> None
             | Some (k, r1) \<Rightarrow>
                 (case skipWs r1 of
                    [] \<Rightarrow> None
                  | c # cs \<Rightarrow>
                      if c = 58 \<and> length cs < length s then
                        (case parseValue (skipWs cs) of
                           None \<Rightarrow> None
                         | Some (v, rest) \<Rightarrow>
                             (case skipWs rest of
                                [] \<Rightarrow> None
                              | d # ds \<Rightarrow>
                                  if d = 125 then Some (setProp k v acc, ds)
                                  else if d = 44 \<and> length ds < length s
                                  then parseMembers (skipWs ds) (setProp k v acc)
                                  else None))
                      else None))
          else None)"
  by pat_completeness auto
termination
proof -
  have le: "length (skipWs s) \<le> length s" for s
    by (simp add: skipWs_def length_dropWhile_le)
  have lt: "length ds < length s" if "skipWs s = d # ds" for s d ds
    using le[of s] that by simp
  show ?thesis
    by (relation "measures [\<lambda>x. case x of Inl s \<Rightarrow> length s | Inr (Inl (s, _)) \<Rightarrow> length s
                                              | Inr (Inr (s, _)) \<Rightarrow> length s,
                            \<lambda>x. case x of Inl _ \<Rightarrow> 0 | Inr _ \<Rightarrow> 1]")
       (auto dest: lt intro: le_less_trans[OF le])
qed

declare parseValue.simps [simp del] parseElements.simps [simp del] parseMembers.simps [simp del]

text \<open>
  \<^verbatim>\<open>JSON.parse(text)\<close>: one value, white space allowed around it and nothing else; a
  \<^verbatim>\<open>SyntaxError\<close> otherwise.
\<close>

definition JSON_parse :: "jsstring \<Rightarrow> js_exn + json" where
  "JSON_parse text =
     (case parseValue (skipWs text) of
        None \<Rightarrow> Inl SyntaxError
      | Some (v, rest) \<Rightarrow> if skipWs rest = [] then Inr v else Inl SyntaxError)"


section \<open>Reading parsed data\<close>

text \<open>
  \<^verbatim>\<open>ToBoolean\<close>: \<^verbatim>\<open>null\<close>, \<^verbatim>\<open>false\<close>, the empty string and the number zero are falsy,
  every other value is truthy, the empty array and the empty object included.  A number
  literal denotes zero as a double exactly when its magnitude is at most \<open>2\<^sup>-\<^sup>1\<^sup>0\<^sup>7\<^sup>5\<close>, half
  of the smallest positive double.
\<close>

fun truthy :: "json \<Rightarrow> bool" where
  "truthy JNull = False"
| "truthy (JBool b) = b"
| "truthy (JNumber q) = (\<bar>q\<bar> > 1 / 2 ^ 1075)"
| "truthy (JString s) = (s \<noteq> [])"
| "truthy (JArray vs) = True"
| "truthy (JObject kvs) = True"

text \<open>
  \<^verbatim>\<open>v.k\<close> for a value \<^verbatim>\<open>v\<close> other than \<^verbatim>\<open>null\<close>; \<^verbatim>\<open>None\<close> is \<^verbatim>\<open>undefined\<close>.  An object
  gives its own property; an array and a string have \<^verbatim>\<open>length\<close>.  The parsers read only the
  fixed names of their result fields and \<^verbatim>\<open>length\<close>, none of which is an array index or a
  property of a built-in prototype.
\<close>

fun getProp :: "json \<Rightarrow> jsstring \<Rightarrow> json option" where
  "getProp (JObject kvs) k = map_of kvs k"
| "getProp (JArray vs) k = (if k = S ''length'' then Some (JNumber (of_nat (length vs))) else None)"
| "getProp (JString s) k = (if k = S ''length'' then Some (JNumber (of_nat (length s))) else None)"
| "getProp v k = None"

text \<open>\<^verbatim>\<open>x?.length\<close>, for \<^verbatim>\<open>x\<close> possibly \<^verbatim>\<open>undefined\<close> or \<^verbatim>\<open>null\<close>\<close>

fun optLength :: "json option \<Rightarrow> json option" where
  "optLength None = None"
| "optLength (Some JNull) = None"
| "optLength (Some v) = getProp v (S ''length'')"

text \<open>\<^verbatim>\<open>a || b\<close>, the right operand possibly \<^verbatim>\<open>undefined\<close>\<close>

fun orElse :: "json option \<Rightarrow> json option \<Rightarrow> json option" where
  "orElse None b = b"
| "orElse (Some v) b = (if truthy v then Some v else b)"

text \<open>\<^verbatim>\<open>a || d\<close>, the right operand a literal\<close>

fun orDefault :: "json option \<Rightarrow> json \<Rightarrow> json" where
  "orDefault None d = d"
| "orDefault (Some v) d = (if truthy v then v else d)"

section \<open>The six response parsers (\<^verbatim>\<open>services/ai-service.ts\<close>)\<close>

text \<open>
  The result types of \<^verbatim>\<open>types/index.ts\<close>.  The parsers build them from parsed JSON without
  any check of the field values, so every field holds a JSON value.
\<close>

record ExplainerResult =
  explanations :: json
  summary :: json

record BugFinderResult =
  bugs :: json
  totalCount :: json
  severitySummary :: json

record RefactorResult =
  suggestions :: json
  overallScore :: json

record CodeSmellResult =
  smells :: json
  totalCount :: json
  categorySummary :: json
  overallHealthScore :: json

record ComplexityResult =
  "functions" :: json
  overallMetrics :: json
  maintainabilityIndex :: json
  recommendations :: json

record SecurityResult =
  vulnerabilities :: json
  totalCount :: json
  severitySummary :: json
  categorySummary :: json
  securityScore :: json
  recommendations :: json

text \<open>\<^verbatim>\<open>new Error('Failed to parse AI response. Please try again.')\<close>, thrown by every \<^verbatim>\<open>catch\<close> block\<close>

datatype error = FailedToParse

text \<open>
  The first property read of each \<^verbatim>\<open>try\<close> block, \<^verbatim>\<open>data.k\<close>, throws a \<^verbatim>\<open>TypeError\<close> when
  \<^verbatim>\<open>data\<close> is \<^verbatim>\<open>null\<close>; later reads are of the same \<^verbatim>\<open>data\<close>, or guarded by \<^verbatim>\<open>?.\<close>.
\<close>

definition readable :: "json \<Rightarrow> js_exn + json" where
  "readable data = (if data = JNull then Inl TypeError else Inr data)"

text \<open>
  The \<^verbatim>\<open>try\<close> block up to the object literal: clean, parse, first read.  The \<^verbatim>\<open>catch\<close>
  block turns whatever was thrown into the one error.
\<close>

definition parsedData :: "jsstring \<Rightarrow> js_exn + json" where
  "parsedData response =
     (let cleaned = clean response
      in case JSON_parse cleaned of Inl e \<Rightarrow> Inl e | Inr data \<Rightarrow> readable data)"

definition zero :: json where
  "zero = JNumber 0"

definition parseExplainerResponse :: "jsstring \<Rightarrow> error + ExplainerResult" where
  "parseExplainerResponse response =
     (case parsedData response of
        Inl e \<Rightarrow> Inl FailedToParse
      | Inr data \<Rightarrow>
          Inr \<lparr> explanations = orDefault (getProp data (S ''explanations'')) (JArray []),
                summary = orDefault (getProp data (S ''summary''))
                            (JString (S ''Analysis completed.'')) \<rparr>)"

definition parseBugFinderResponse :: "jsstring \<Rightarrow> error + BugFinderResult" where
  "parseBugFinderResponse response =
     (case parsedData response of
        Inl e \<Rightarrow> Inl FailedToParse
      | Inr data \<Rightarrow>
          Inr \<lparr> bugs = orDefault (getProp data (S ''bugs'')) (JArray []),
                BugFinderResult.totalCount =
                  orDefault (orElse (getProp data (S ''totalCount''))
                                    (optLength (getProp data (S ''bugs'')))) zero,
                BugFinderResult.severitySummary =
                  orDefault (getProp data (S ''severitySummary''))
                    (JObject [(S ''critical'', zero), (S ''high'', zero),
                              (S ''medium'', zero), (S ''low'', zero)]) \<rparr>)"

definition parseRefactoringResponse :: "jsstring \<Rightarrow> error + RefactorResult" where
  "parseRefactoringResponse response =
     (case parsedData response of
        Inl e \<Rightarrow> Inl FailedToParse
      | Inr data \<Rightarrow>
          Inr \<lparr> suggestions = orDefault (getProp data (S ''suggestions'')) (JArray []),
                overallScore = orDefault (getProp data (S ''overallScore'')) (JNumber 70) \<rparr>)"

definition parseCodeSmellResponse :: "jsstring \<Rightarrow> error + CodeSmellResult" where
  "parseCodeSmellResponse response =
     (case parsedData response of
        Inl e \<Rightarrow> Inl FailedToParse
      | Inr data \<Rightarrow>
          Inr \<lparr> smells = orDefault (getProp data (S ''smells'')) (JArray []),
                CodeSmellResult.totalCount =
                  orDefault (optLength (getProp data (S ''smells''))) zero,
                CodeSmellResult.categorySummary =
                  orDefault (getProp data (S ''categorySummary''))
                    (JObject [(S ''bloaters'', zero), (S ''oo-abusers'', zero),
                              (S ''change-preventers'', zero), (S ''dispensables'', zero),
                              (S ''couplers'', zero)]),
                overallHealthScore =
                  orDefault (getProp data (S ''overallHealthScore'')) (JNumber 70) \<rparr>)"

definition parseComplexityResponse :: "jsstring \<Rightarrow> error + ComplexityResult" where
  "parseComplexityResponse response =
     (case parsedData response of
        Inl e \<Rightarrow> Inl FailedToParse
      | Inr data \<Rightarrow>
          Inr \<lparr> functions = orDefault (getProp data (S ''functions'')) (JArray []),
                overallMetrics =
                  orDefault (getProp data (S ''overallMetrics''))
                    (JObject [(S ''averageCyclomaticComplexity'', zero),
                              (S ''averageCognitiveComplexity'', zero),
                              (S ''maxNestingDepth'', zero),
                              (S ''totalFunctions'', zero),
                              (S ''complexFunctions'', zero)]),
                maintainabilityIndex =
                  orDefault (getProp data (S ''maintainabilityIndex'')) (JNumber 70),
                ComplexityResult.recommendations =
                  orDefault (getProp data (S ''recommendations'')) (JArray []) \<rparr>)"

definition parseSecurityResponse :: "jsstring \<Rightarrow> error + SecurityResult" where
  "parseSecurityResponse response =
     (case parsedData response of
        Inl e \<Rightarrow> Inl FailedToParse
      | Inr data \<Rightarrow>
          Inr \<lparr> vulnerabilities = orDefault (getProp data (S ''vulnerabilities'')) (JArray []),
                SecurityResult.totalCount =
                  orDefault (optLength (getProp data (S ''vulnerabilities''))) zero,
                SecurityResult.severitySummary =
                  orDefault (getProp data (S ''severitySummary''))
                    (JObject [(S ''critical'', zero), (S ''high'', zero), (S ''medium'', zero),
                              (S ''low'', zero), (S ''info'', zero)]),
                SecurityResult.categorySummary =
                  orDefault (getProp data (S ''categorySummary''))
                    (JObject [(S ''injection'', zero), (S ''broken-auth'', zero),
                              (S ''sensitive-data'', zero), (S ''xxe'', zero),
                              (S ''broken-access'', zero), (S ''security-misconfig'', zero),
                              (S ''xss'', zero), (S ''insecure-deserialization'', zero),
                              (S ''vulnerable-components'', zero),
                              (S ''logging-monitoring'', zero)]),
                securityScore = orDefault (getProp data (S ''securityScore'')) (JNumber 70),
                SecurityResult.recommendations =
                  orDefault (getProp data (S ''recommendations'')) (JArray []) \<rparr>)"

text \<open>The fixed key sets of the two category histograms (\<^verbatim>\<open>types/index.ts\<close>).\<close>

definition owaspCategories :: "jsstring list" where
  "owaspCategories =
     [S ''injection'', S ''broken-auth'', S ''sensitive-data'', S ''xxe'', S ''broken-access'',
      S ''security-misconfig'', S ''xss'', S ''insecure-deserialization'',
      S ''vulnerable-components'', S ''logging-monitoring'']"

definition smellCategories :: "jsstring list" where
  "smellCategories =
     [S ''bloaters'', S ''oo-abusers'', S ''change-preventers'', S ''dispensables'',
      S ''couplers'']"

text \<open>The value has the key, and a number under it.\<close>

definition hasNumber :: "json \<Rightarrow> jsstring \<Rightarrow> bool" where
  "hasNumber v k = (case getProp v k of Some (JNumber n) \<Rightarrow> True | _ \<Rightarrow> False)"


section \<open>Regular expressions\<close>

text \<open>
  The fragment of ECMAScript regular expressions that \<^verbatim>\<open>detectLanguage\<close> uses, without
  flags: literal text, the classes \<^verbatim>\<open>\s\<close>, \<^verbatim>\<open>\w\<close> and \<^verbatim>\<open>.\<close>, bracket sets, sequence,
  alternation, \<^verbatim>\<open>?\<close>, \<^verbatim>\<open>*\<close>, \<^verbatim>\<open>+\<close>, and the assertions \<^verbatim>\<open>^\<close>, \<^verbatim>\<open>$\<close> and \<^verbatim>\<open>\b\<close>.
\<close>

datatype citem = C jschar | W | Sp

datatype regex =
    Lit jsstring
  | Set "citem list"
  | Dot
  | Seq regex regex
  | Alt regex regex
  | Opt regex
  | Star regex
  | Bol
  | Eol
  | WordB

abbreviation Plus :: "regex \<Rightarrow> regex" where
  "Plus r \<equiv> Seq r (Star r)"

abbreviation Space :: regex where
  "Space \<equiv> Set [Sp]"

abbreviation Word :: regex where
  "Word \<equiv> Set [W]"

abbreviation L :: "string \<Rightarrow> regex" where
  "L cs \<equiv> Lit (S cs)"

fun seqs :: "regex list \<Rightarrow> regex" where
  "seqs [] = Lit []"
| "seqs [r] = r"
| "seqs (r # rs) = Seq r (seqs rs)"

fun alts :: "regex list \<Rightarrow> regex" where
  "alts [] = Set []"
| "alts [r] = r"
| "alts (r # rs) = Alt r (alts rs)"

abbreviation lits :: "string list \<Rightarrow> regex" where
  "lits ws \<equiv> alts (map (\<lambda>w. L w) ws)"

definition isWordChar :: "jschar \<Rightarrow> bool" where
  "isWordChar c \<longleftrightarrow> (48 \<le> c \<and> c \<le> 57) \<or> (65 \<le> c \<and> c \<le> 90) \<or> (97 \<le> c \<and> c \<le> 122) \<or> c = 95"

definition isLineTerminator :: "jschar \<Rightarrow> bool" where
  "isLineTerminator c \<longleftrightarrow> c = 10 \<or> c = 13 \<or> c = 8232 \<or> c = 8233"

fun inItem :: "citem \<Rightarrow> jschar \<Rightarrow> bool" where
  "inItem (C d) c = (c = d)"
| "inItem W c = isWordChar c"
| "inItem Sp c = isWhiteSpace c"

text \<open>
  A position in the subject: the code unit before it, if any, and the text from it on.
  The position at the very start is the one with nothing before it.
\<close>

type_synonym pos = "jschar option \<times> jsstring"

definition wordBefore :: "jschar option \<Rightarrow> bool" where
  "wordBefore p = (case p of None \<Rightarrow> False | Some c \<Rightarrow> isWordChar c)"

definition wordAt :: "jsstring \<Rightarrow> bool" where
  "wordAt s = (case s of [] \<Rightarrow> False | c # cs \<Rightarrow> isWordChar c)"

text \<open>
  \<^verbatim>\<open>matches r x\<close> lists the positions at which a match of \<^verbatim>\<open>r\<close> that starts at \<^verbatim>\<open>x\<close> can
  end.  \<^verbatim>\<open>test\<close> asks only whether a match exists, so the order in which the engine tries
  the alternatives does not matter.  An iteration of \<^verbatim>\<open>*\<close> that consumes nothing ends where
  it started and adds no position; the engine rejects it as well.
\<close>

function matches :: "regex \<Rightarrow> pos \<Rightarrow> pos list" where
  "matches (Lit l) x =
     (if startsWith (snd x) l
      then [(if l = [] then fst x else Some (last l), drop (length l) (snd x))]
      else [])"
| "matches (Set its) x =
     (case snd x of
        [] \<Rightarrow> []
      | c # cs \<Rightarrow> if list_ex (\<lambda>i. inItem i c) its then [(Some c, cs)] else [])"
| "matches Dot x =
     (case snd x of
        [] \<Rightarrow> []
      | c # cs \<Rightarrow> if isLineTerminator c then [] else [(Some c, cs)])"
| "matches (Seq a b) x = concat (map (matches b) (matches a x))"
| "matches (Alt a b) x = matches a x @ matches b x"
| "matches (Opt a) x = matches a x @ [x]"
| "matches (Star a) x =
     x # concat (map (matches (Star a))
                     (filter (\<lambda>y. length (snd y) < length (snd x)) (matches a x)))"
| "matches Bol x = (if fst x = None then [x] else [])"
| "matches Eol x = (if snd x = [] then [x] else [])"
| "matches WordB x = (if wordBefore (fst x) \<noteq> wordAt (snd x) then [x] else [])"
  by pat_completeness auto
termination
  by (relation "measures [\<lambda>(r, x). size r, \<lambda>(r, x). length (snd x)]") auto

declare matches.simps [simp del]

text \<open>Every position of a subject, from left to right.\<close>

fun starts :: "jschar option \<Rightarrow> jsstring \<Rightarrow> pos list" where
  "starts p [] = [(p, [])]"
| "starts p (c # cs) = (p, c # cs) # starts (Some c) cs"

text \<open>\<^verbatim>\<open>r.test(s)\<close>: some match of \<^verbatim>\<open>r\<close> starts at some position of \<^verbatim>\<open>s\<close>.\<close>

fun matchesAt :: "regex \<Rightarrow> pos list \<Rightarrow> bool" where
  "matchesAt r [] = False"
| "matchesAt r (x # xs) = (matches r x \<noteq> [] \<or> matchesAt r xs)"

definition test :: "regex \<Rightarrow> jsstring \<Rightarrow> bool" where
  "test r s = matchesAt r (starts None s)"


section \<open>Language detection (\<^verbatim>\<open>utils/language-detector.ts\<close>)\<close>

text \<open>
  \<^verbatim>\<open>lines[0]\<close>.  An index out of range gives \<^verbatim>\<open>undefined\<close>, which \<^verbatim>\<open>test\<close> converts
  to the string \<^verbatim>\<open>undefined\<close>.
\<close>

definition firstLine :: "jsstring list \<Rightarrow> jsstring" where
  "firstLine lines = (case lines of [] \<Rightarrow> S ''undefined'' | l # ls \<Rightarrow> l)"

text \<open>
  Python:
  \<^verbatim>\<open>/^(def|class|import|from|if __name__|print\(|async def)\s/.test(codeContent) ||\<close>
  \<^verbatim>\<open>/:\s*$/.test(lines[0]) ||\<close>
  \<^verbatim>\<open>/^\s*(def|class|import|from|elif|async def)\s/.test(codeContent)\<close>
\<close>

definition pythonSig :: "jsstring list \<Rightarrow> jsstring \<Rightarrow> bool" where
  "pythonSig lines codeContent \<longleftrightarrow>
     test (seqs [Bol, lits [''def'', ''class'', ''import'', ''from'', ''if __name__'', ''print('',
                            ''async def''], Space]) codeContent \<or>
     test (seqs [L '':'', Star Space, Eol]) (firstLine lines) \<or>
     test (seqs [Bol, Star Space,
                 lits [''def'', ''class'', ''import'', ''from'', ''elif'', ''async def''], Space])
          codeContent"

text \<open>
  Java:
  \<^verbatim>\<open>/\b(public|private|protected)\s+(static\s+)?(class|interface|enum|void|int|String)\b/ ||\<close>
  \<^verbatim>\<open>/\bpackage\s+[\w.]+;/ || /\bimport\s+java\./ || /\bSystem\.out\.println/\<close>
\<close>

definition javaSig :: "jsstring \<Rightarrow> bool" where
  "javaSig codeContent \<longleftrightarrow>
     test (seqs [WordB, lits [''public'', ''private'', ''protected''], Plus Space,
                 Opt (seqs [L ''static'', Plus Space]),
                 lits [''class'', ''interface'', ''enum'', ''void'', ''int'', ''String''], WordB])
          codeContent \<or>
     test (seqs [WordB, L ''package'', Plus Space, Plus (Set [W, C 46]), L '';'']) codeContent \<or>
     test (seqs [WordB, L ''import'', Plus Space, L ''java.'']) codeContent \<or>
     test (seqs [WordB, L ''System.out.println'']) codeContent"

text \<open>
  C#:
  \<^verbatim>\<open>/\b(namespace|using\s+System|public\s+class|private\s+class)\b/ ||\<close>
  \<^verbatim>\<open>/\bConsole\.WriteLine/ || /\[.*Attribute\]/ || /\basync\s+Task/\<close>
\<close>

definition csharpSig :: "jsstring \<Rightarrow> bool" where
  "csharpSig codeContent \<longleftrightarrow>
     test (seqs [WordB,
                 alts [L ''namespace'', seqs [L ''using'', Plus Space, L ''System''],
                       seqs [L ''public'', Plus Space, L ''class''],
                       seqs [L ''private'', Plus Space, L ''class'']],
                 WordB]) codeContent \<or>
     test (seqs [WordB, L ''Console.WriteLine'']) codeContent \<or>
     test (seqs [L ''['', Star Dot, L ''Attribute]'']) codeContent \<or>
     test (seqs [WordB, L ''async'', Plus Space, L ''Task'']) codeContent"

text \<open>
  C++:
  \<^verbatim>\<open>/#include\s*[<"]/ || /\b(std::|cout|cin|endl|nullptr|template\s*<)\b/ ||\<close>
  \<^verbatim>\<open>/^using namespace std;?/\<close>
\<close>

definition cppSig :: "jsstring \<Rightarrow> bool" where
  "cppSig codeContent \<longleftrightarrow>
     test (seqs [L ''#include'', Star Space, Set [C 60, C 34]]) codeContent \<or>
     test (seqs [WordB,
                 alts [L ''std::'', L ''cout'', L ''cin'', L ''endl'', L ''nullptr'',
                       seqs [L ''template'', Star Space, L ''<'']],
                 WordB]) codeContent \<or>
     test (seqs [Bol, L ''using namespace std'', Opt (L '';'')]) codeContent"

text \<open>
  Go:
  \<^verbatim>\<open>/^package\s+\w+/.test(trimmedCode) || /\bfunc\s+\w+\(/ || /\bimport\s+\(/ ||\<close>
  \<^verbatim>\<open>/\bfmt\.Print/ || /:=\s*/\<close>
\<close>

definition goSig :: "jsstring \<Rightarrow> jsstring \<Rightarrow> bool" where
  "goSig trimmedCode codeContent \<longleftrightarrow>
     test (seqs [Bol, L ''package'', Plus Space, Plus Word]) trimmedCode \<or>
     test (seqs [WordB, L ''func'', Plus Space, Plus Word, L ''('']) codeContent \<or>
     test (seqs [WordB, L ''import'', Plus Space, L ''('']) codeContent \<or>
     test (seqs [WordB, L ''fmt.Print'']) codeContent \<or>
     test (seqs [L '':='', Star Space]) codeContent"

text \<open>
  Rust:
  \<^verbatim>\<open>/\bfn\s+\w+/ || /\blet\s+mut\s+/ || /\buse\s+std::/ || /\bimpl\s+/ ||\<close>
  \<^verbatim>\<open>/\b(pub\s+)?(struct|enum|trait)\s+/\<close>
\<close>

definition rustSig :: "jsstring \<Rightarrow> bool" where
  "rustSig codeContent \<longleftrightarrow>
     test (seqs [WordB, L ''fn'', Plus Space, Plus Word]) codeContent \<or>
     test (seqs [WordB, L ''let'', Plus Space, L ''mut'', Plus Space]) codeContent \<or>
     test (seqs [WordB, L ''use'', Plus Space, L ''std::'']) codeContent \<or>
     test (seqs [WordB, L ''impl'', Plus Space]) codeContent \<or>
     test (seqs [WordB, Opt (seqs [L ''pub'', Plus Space]),
                 lits [''struct'', ''enum'', ''trait''], Plus Space]) codeContent"

text \<open>
  Ruby:
  \<^verbatim>\<open>/\b(def|class|module|require|puts|attr_accessor|end)\b/ || /\bdo\s*\|.*\|/ ||\<close>
  \<^verbatim>\<open>/@\w+/ && /\bdef\s+/\<close>
\<close>

definition rubySig :: "jsstring \<Rightarrow> bool" where
  "rubySig codeContent \<longleftrightarrow>
     test (seqs [WordB,
                 lits [''def'', ''class'', ''module'', ''require'', ''puts'', ''attr_accessor'',
                       ''end''],
                 WordB]) codeContent \<or>
     test (seqs [WordB, L ''do'', Star Space, L ''|'', Star Dot, L ''|'']) codeContent \<or>
     (test (seqs [L ''@'', Plus Word]) codeContent \<and>
      test (seqs [WordB, L ''def'', Plus Space]) codeContent)"

text \<open>
  PHP:
  \<^verbatim>\<open>/^<\?php/.test(trimmedCode) || /\$\w+\s*=/ ||\<close>
  \<^verbatim>\<open>/\bfunction\s+\w+\(.*\)\s*\{/ && /\$/ || /\b(echo|print_r|var_dump)\b/\<close>
\<close>

definition phpSig :: "jsstring \<Rightarrow> jsstring \<Rightarrow> bool" where
  "phpSig trimmedCode codeContent \<longleftrightarrow>
     test (seqs [Bol, L ''<?php'']) trimmedCode \<or>
     test (seqs [L ''$'', Plus Word, Star Space, L ''='']) codeContent \<or>
     (test (seqs [WordB, L ''function'', Plus Space, Plus Word, L ''('', Star Dot, L '')'',
                  Star Space, L ''{'']) codeContent \<and>
      test (L ''$'') codeContent) \<or>
     test (seqs [WordB, lits [''echo'', ''print_r'', ''var_dump''], WordB]) codeContent"

text \<open>
  TypeScript:
  \<^verbatim>\<open>/:\s*(string|number|boolean|any|void|never|unknown)\b/ || /\binterface\s+\w+/ ||\<close>
  \<^verbatim>\<open>/\btype\s+\w+\s*=/ || /<\w+>/ && /\bfunction\s+/ || /\bas\s+\w+/ || /\benum\s+\w+/\<close>
\<close>

definition typescriptSig :: "jsstring \<Rightarrow> bool" where
  "typescriptSig codeContent \<longleftrightarrow>
     test (seqs [L '':'', Star Space,
                 lits [''string'', ''number'', ''boolean'', ''any'', ''void'', ''never'',
                       ''unknown''],
                 WordB]) codeContent \<or>
     test (seqs [WordB, L ''interface'', Plus Space, Plus Word]) codeContent \<or>
     test (seqs [WordB, L ''type'', Plus Space, Plus Word, Star Space, L ''='']) codeContent \<or>
     (test (seqs [L ''<'', Plus Word, L ''>'']) codeContent \<and>
      test (seqs [WordB, L ''function'', Plus Space]) codeContent) \<or>
     test (seqs [WordB, L ''as'', Plus Space, Plus Word]) codeContent \<or>
     test (seqs [WordB, L ''enum'', Plus Space, Plus Word]) codeContent"

text \<open>
  JavaScript:
  \<^verbatim>\<open>/\b(const|let|var|function|class|import|export|async|await|=>)\b/ ||\<close>
  \<^verbatim>\<open>/\bconsole\.(log|error|warn)/ || /\brequire\(/ || /\bmodule\.exports/\<close>
\<close>

definition javascriptSig :: "jsstring \<Rightarrow> bool" where
  "javascriptSig codeContent \<longleftrightarrow>
     test (seqs [WordB,
                 lits [''const'', ''let'', ''var'', ''function'', ''class'', ''import'', ''export'',
                       ''async'', ''await'', ''=>''],
                 WordB]) codeContent \<or>
     test (seqs [WordB, L ''console.'', lits [''log'', ''error'', ''warn'']]) codeContent \<or>
     test (seqs [WordB, L ''require('']) codeContent \<or>
     test (seqs [WordB, L ''module.exports'']) codeContent"

text \<open>The three texts the probes read: \<^verbatim>\<open>trimmedCode\<close>, \<^verbatim>\<open>lines\<close> and \<^verbatim>\<open>codeContent\<close>.\<close>

definition trimmedCodeOf :: "jsstring \<Rightarrow> jsstring" where
  "trimmedCodeOf code = trim code"

definition linesOf :: "jsstring \<Rightarrow> jsstring list" where
  "linesOf code = map trim (split_nl (trimmedCodeOf code))"

definition codeContentOf :: "jsstring \<Rightarrow> jsstring" where
  "codeContentOf code =
     join_nl (filter (\<lambda>line. length line > 0 \<and> \<not> startsWith line (S ''//'')) (linesOf code))"

definition detectLanguage :: "jsstring \<Rightarrow> jsstring" where
  "detectLanguage code =
     (if code = [] \<or> length (trim code) = 0 then S ''javascript''
      else
        let trimmedCode = trimmedCodeOf code;
            lines = linesOf code;
            codeContent = codeContentOf code
        in if pythonSig lines codeContent then S ''python''
           else if javaSig codeContent then S ''java''
           else if csharpSig codeContent then S ''csharp''
           else if cppSig codeContent then S ''cpp''
           else if goSig trimmedCode codeContent then S ''go''
           else if rustSig codeContent then S ''rust''
           else if rubySig codeContent then S ''ruby''
           else if phpSig trimmedCode codeContent then S ''php''
           else if typescriptSig codeContent then S ''typescript''
           else if javascriptSig codeContent then S ''javascript''
           else S ''javascript'')"

text \<open>The closed set of language tags (\<^verbatim>\<open>SUPPORTED_LANGUAGES\<close> of \<^verbatim>\<open>types/index.ts\<close>).\<close>

definition languageTags :: "jsstring list" where
  "languageTags =
     [S ''javascript'', S ''typescript'', S ''python'', S ''java'', S ''csharp'', S ''cpp'',
      S ''go'', S ''rust'', S ''ruby'', S ''php'']"


text \<open>
  The detector as the specification words it: the ten signatures in their priority order,
  the tag of the first one that matches, and \<^verbatim>\<open>javascript\<close> when none does.
\<close>

definition signatureTable :: "(jsstring \<times> (jsstring \<Rightarrow> bool)) list" where
  "signatureTable =
     [(S ''python'', \<lambda>code. pythonSig (linesOf code) (codeContentOf code)),
      (S ''java'', \<lambda>code. javaSig (codeContentOf code)),
      (S ''csharp'', \<lambda>code. csharpSig (codeContentOf code)),
      (S ''cpp'', \<lambda>code. cppSig (codeContentOf code)),
      (S ''go'', \<lambda>code. goSig (trimmedCodeOf code) (codeContentOf code)),
      (S ''rust'', \<lambda>code. rustSig (codeContentOf code)),
      (S ''ruby'', \<lambda>code. rubySig (codeContentOf code)),
      (S ''php'', \<lambda>code. phpSig (trimmedCodeOf code) (codeContentOf code)),
      (S ''typescript'', \<lambda>code. typescriptSig (codeContentOf code)),
      (S ''javascript'', \<lambda>code. javascriptSig (codeContentOf code))]"

definition firstMatch :: "jsstring \<Rightarrow> jsstring" where
  "firstMatch code =
     (case find (\<lambda>entry. snd entry code) signatureTable of
        None \<Rightarrow> S ''javascript''
      | Some entry \<Rightarrow> fst entry)"

definition anySignature :: "jsstring \<Rightarrow> bool" where
  "anySignature code = list_ex (\<lambda>entry. snd entry code) signatureTable"

text \<open>The last code unit of a non-empty line is a colon.\<close>

definition endsWithColon :: "jsstring \<Rightarrow> bool" where
  "endsWithColon l \<longleftrightarrow> l \<noteq> [] \<and> last l = 58"


text \<open>Every key of the list is present with the number 0.\<close>

definition zeroHistogram :: "json \<Rightarrow> jsstring list \<Rightarrow> bool" where
  "zeroHistogram v ks = list_all (\<lambda>k. getProp v k = Some (JNumber 0)) ks"

text \<open>A property that is \<^verbatim>\<open>undefined\<close> or falsy, the case in which \<^verbatim>\<open>||\<close> moves on.\<close>

definition absentOrFalsy :: "json option \<Rightarrow> bool" where
  "absentOrFalsy x = (case x of None \<Rightarrow> True | Some v \<Rightarrow> \<not> truthy v)"

section \<open>Evaluation rules\<close>

lemmas str_eval = trim_def isWhiteSpace_def startsWith_def
lemmas clean_eval = fence_def fenceJson_def clean_def replaceFence.simps matchFence_def
lemmas json_eval = JSON_parse_def parseValue.simps parseElements.simps parseMembers.simps
  skipWs_def isJsonWs_def parseNumber_def isDigit_def digitsValue_def hexValue_def
lemmas data_eval = parsedData_def readable_def zero_def
lemmas parser_eval = str_eval clean_eval json_eval data_eval
lemmas re_eval = test_def matches.simps wordBefore_def wordAt_def isWordChar_def
  isLineTerminator_def
lemmas sig_eval = pythonSig_def javaSig_def csharpSig_def cppSig_def goSig_def rustSig_def
  rubySig_def phpSig_def typescriptSig_def javascriptSig_def
lemmas det_eval = detectLanguage_def trimmedCodeOf_def linesOf_def codeContentOf_def
  firstLine_def

section \<open>Facts about strings and fence stripping\<close>

lemma startsWith_prefix: "startsWith s p \<longleftrightarrow> prefix p s"
  unfolding startsWith_def by (metis prefix_def append_eq_conv_conj append_take_drop_id)

lemma startsWith_Cons: "startsWith (c # cs) (d # ds) \<longleftrightarrow> c = d \<and> startsWith cs ds"
  by (simp add: startsWith_def)

lemma startsWith_Nil: "startsWith [] p \<longleftrightarrow> p = []"
  by (auto simp: startsWith_def)

lemma startsWith_Nil2: "startsWith s []"
  by (simp add: startsWith_def)

lemma includes_str_sublist: "includes_str s p \<longleftrightarrow> sublist p s"
  by (induction s) (auto simp: startsWith_prefix sublist_Cons_right)

lemma trim_prefix_suffix: "\<exists>t. suffix t s \<and> prefix (trim s) t"
proof -
  let ?t = "dropWhile isWhiteSpace s"
  have "suffix ?t s" by (rule suffix_dropWhile)
  moreover have "suffix (dropWhile isWhiteSpace (rev ?t)) (rev ?t)" by (rule suffix_dropWhile)
  then have "prefix (trim s) ?t" unfolding trim_def by (simp add: suffix_to_prefix)
  ultimately show ?thesis by blast
qed

lemma sublist_trim: "sublist p (trim s) \<Longrightarrow> sublist p s"
  using trim_prefix_suffix[of s]
  by (meson prefix_imp_sublist suffix_imp_sublist sublist_order.order.trans)

lemma dropWhile_hd_id: "xs = [] \<or> \<not> P (hd xs) \<Longrightarrow> dropWhile P xs = xs"
  by (cases xs) auto

lemma trim_idem: "trim (trim s) = trim s"
proof -
  let ?t = "dropWhile isWhiteSpace s"
  let ?u = "dropWhile isWhiteSpace (rev ?t)"
  have r: "trim s = rev ?u" by (simp add: trim_def)
  have "dropWhile isWhiteSpace (rev ?u) = rev ?u"
  proof (rule dropWhile_hd_id, cases "?u = []")
    case True then show "rev ?u = [] \<or> \<not> isWhiteSpace (hd (rev ?u))" by simp
  next
    case False
    then have "?t \<noteq> []" by (cases "?t = []") simp_all
    then have ht: "\<not> isWhiteSpace (hd ?t)" by (rule hd_dropWhile)
    have "suffix ?u (rev ?t)" by (rule suffix_dropWhile)
    then obtain zs where zs: "rev ?t = zs @ ?u" by (auto simp: suffix_def)
    then have t: "?t = rev ?u @ rev zs" by (metis rev_append rev_rev_ident)
    have "hd (rev ?u) = hd ?t" using t False by (metis hd_append2 rev_is_Nil_conv)
    with ht show "rev ?u = [] \<or> \<not> isWhiteSpace (hd (rev ?u))" by simp
  qed
  then have "trim (rev ?u) = rev ?u" by (simp add: trim_def)
  then show ?thesis by (simp only: r)
qed

lemma all_white_dropWhile: "list_all isWhiteSpace code \<Longrightarrow> dropWhile isWhiteSpace code = []"
  by (induction code) auto

lemma trim_blank: "list_all isWhiteSpace code \<Longrightarrow> trim code = []"
  by (simp add: trim_def all_white_dropWhile)

lemma replaceFence_Nil: "replaceFence p [] = []"
  by (simp add: replaceFence.simps)

lemma matchFence_None: "matchFence p s = None \<longleftrightarrow> \<not> startsWith s p"
  by (auto simp: matchFence_def split: list.splits)

lemma matchFence_shorter: "p \<noteq> [] \<Longrightarrow> matchFence p s = Some r \<Longrightarrow> length r < length s"
  by (cases p) (auto simp: matchFence_def startsWith_prefix prefix_def split: if_splits list.splits)

lemma replaceFence_Cons_None:
  "\<not> startsWith (c # cs) p \<Longrightarrow> replaceFence p (c # cs) = c # replaceFence p cs"
  by (subst replaceFence.simps) (simp add: matchFence_None[symmetric])

lemma replaceFence_noop: "\<not> includes_str s p \<Longrightarrow> replaceFence p s = s"
proof (induction s)
  case Nil show ?case by (simp add: replaceFence_Nil)
next
  case (Cons c cs)
  then show ?case by (simp add: replaceFence_Cons_None)
qed

lemma fenceJson_fence: "includes_str s fenceJson \<Longrightarrow> includes_str s fence"
proof -
  have "prefix fence fenceJson" by (simp add: fence_def fenceJson_def)
  then have "sublist fence fenceJson" by (rule prefix_imp_sublist)
  then show "includes_str s fenceJson \<Longrightarrow> includes_str s fence"
    unfolding includes_str_sublist by (rule sublist_order.order.trans)
qed

text \<open>
  What is left of a run of backticks after the deletion of the fences in it is shorter than
  a fence, and the deletion never joins two such remainders: a text that does not start
  with two backticks does not start with two backticks afterwards either.
\<close>

lemma replaceFence_two_ticks:
  assumes "\<not> startsWith cs [96, 96]"
  shows "\<not> startsWith (replaceFence fence cs) [96, 96]"
proof (cases cs)
  case Nil
  then show ?thesis by (simp add: replaceFence_Nil startsWith_Nil)
next
  case (Cons x xs)
  note c1 = Cons
  have n1: "\<not> startsWith (x # xs) fence"
    using assms c1 by (cases xs) (auto simp: fence_def startsWith_Cons startsWith_Nil startsWith_Nil2)
  show ?thesis
  proof (cases xs)
    case Nil
    then show ?thesis using c1 n1
      by (simp add: replaceFence_Cons_None replaceFence_Nil startsWith_Cons startsWith_Nil)
  next
    case (Cons y ys)
    show ?thesis
    proof (cases "x = 96")
      case False
      then show ?thesis using c1 n1 by (simp add: replaceFence_Cons_None startsWith_Cons)
    next
      case True
      then have "y \<noteq> 96" using assms c1 Cons by (auto simp: startsWith_Cons startsWith_def)
      then have "\<not> startsWith (y # ys) fence" by (simp add: fence_def startsWith_Cons)
      then show ?thesis using c1 n1 Cons \<open>y \<noteq> 96\<close>
        by (simp add: replaceFence_Cons_None startsWith_Cons)
    qed
  qed
qed

lemma replaceFence_no_fence: "\<not> includes_str (replaceFence fence s) fence"
proof (induction fence s rule: replaceFence.induct)
  case (1 s)
  show ?case
  proof (cases s)
    case Nil
    then show ?thesis by (simp add: replaceFence_Nil fence_def)
  next
    case (Cons c cs)
    show ?thesis
    proof (cases "matchFence fence s")
      case None
      then have ns: "\<not> startsWith (c # cs) fence" using Cons by (simp add: matchFence_None)
      have ih: "\<not> includes_str (replaceFence fence cs) fence" using 1(1)[OF Cons None] .
      have "\<not> startsWith cs [96, 96]" if "c = 96"
        using ns that by (simp add: fence_def startsWith_Cons)
      then have "\<not> startsWith (c # replaceFence fence cs) fence"
        using replaceFence_two_ticks[of cs] by (auto simp: fence_def startsWith_Cons)
      with ih ns Cons show ?thesis by (simp add: replaceFence_Cons_None)
    next
      case (Some r)
      have "fence \<noteq> []" by (simp add: fence_def)
      then have lt: "length r < length s" using Some by (rule matchFence_shorter)
      have "replaceFence fence s = replaceFence fence r"
        using Cons Some lt by (subst replaceFence.simps) simp
      then show ?thesis using 1(2)[OF Cons Some lt] by simp
    qed
  qed
qed

lemma clean_no_fence: "\<not> includes_str (clean s) fence"
  unfolding clean_def includes_str_sublist
  using replaceFence_no_fence sublist_trim includes_str_sublist by blast

lemma clean_fence_free: "\<not> includes_str s fence \<Longrightarrow> clean s = trim s"
proof -
  assume nf: "\<not> includes_str s fence"
  then have "\<not> includes_str s fenceJson" using fenceJson_fence by blast
  then have "replaceFence fenceJson s = s" by (rule replaceFence_noop)
  moreover have "replaceFence fence s = s" using nf by (rule replaceFence_noop)
  ultimately show ?thesis by (simp add: clean_def)
qed

lemma clean_idem: "clean (clean s) = clean s"
proof -
  have "clean (clean s) = trim (clean s)" using clean_no_fence by (rule clean_fence_free)
  also have "\<dots> = clean s" by (simp add: clean_def trim_idem)
  finally show ?thesis .
qed

section \<open>Facts about the parsers\<close>

lemma parsedData_isl:
  "isl (parsedData response) \<longleftrightarrow>
     isl (JSON_parse (clean response)) \<or> JSON_parse (clean response) = Inr JNull"
  by (auto simp: parsedData_def readable_def Let_def split: sum.splits)

lemma parsedData_Inr:
  "parsedData response = Inr data \<longleftrightarrow> JSON_parse (clean response) = Inr data \<and> data \<noteq> JNull"
  by (auto simp: parsedData_def readable_def Let_def split: sum.splits)

lemma explainer_isl: "isl (parseExplainerResponse r) \<longleftrightarrow> isl (parsedData r)"
  by (simp add: parseExplainerResponse_def split: sum.splits)

lemma bugFinder_isl: "isl (parseBugFinderResponse r) \<longleftrightarrow> isl (parsedData r)"
  by (simp add: parseBugFinderResponse_def split: sum.splits)

lemma refactoring_isl: "isl (parseRefactoringResponse r) \<longleftrightarrow> isl (parsedData r)"
  by (simp add: parseRefactoringResponse_def split: sum.splits)

lemma codeSmell_isl: "isl (parseCodeSmellResponse r) \<longleftrightarrow> isl (parsedData r)"
  by (simp add: parseCodeSmellResponse_def split: sum.splits)

lemma complexity_isl: "isl (parseComplexityResponse r) \<longleftrightarrow> isl (parsedData r)"
  by (simp add: parseComplexityResponse_def split: sum.splits)

lemma security_isl: "isl (parseSecurityResponse r) \<longleftrightarrow> isl (parsedData r)"
  by (simp add: parseSecurityResponse_def split: sum.splits)

text \<open>A length is a whole number, so as a number it is falsy only when it is 0.\<close>

lemma truthy_length: "truthy (JNumber (of_nat n)) \<longleftrightarrow> n \<noteq> 0"
proof (cases "n = 0")
  case True
  then show ?thesis by simp
next
  case False
  then have "(1::rat) \<le> of_nat n" by simp
  moreover have "(1::rat) / 2 ^ 1075 < 1" by simp
  ultimately have "(1::rat) / 2 ^ 1075 < \<bar>of_nat n\<bar>" by linarith
  with False show ?thesis by simp
qed

lemma orDefault_absent: "absentOrFalsy x \<Longrightarrow> orDefault x d = d"
  by (cases x) (auto simp: absentOrFalsy_def)

lemma owasp_default_complete:
  "zeroHistogram
     (JObject [(S ''injection'', zero), (S ''broken-auth'', zero), (S ''sensitive-data'', zero),
               (S ''xxe'', zero), (S ''broken-access'', zero), (S ''security-misconfig'', zero),
               (S ''xss'', zero), (S ''insecure-deserialization'', zero),
               (S ''vulnerable-components'', zero), (S ''logging-monitoring'', zero)])
     owaspCategories"
  by (simp add: zeroHistogram_def owaspCategories_def zero_def)

lemma smell_default_complete:
  "zeroHistogram
     (JObject [(S ''bloaters'', zero), (S ''oo-abusers'', zero), (S ''change-preventers'', zero),
               (S ''dispensables'', zero), (S ''couplers'', zero)])
     smellCategories"
  by (simp add: zeroHistogram_def smellCategories_def zero_def)

lemma security_categorySummary:
  assumes "parsedData response = Inr data"
  shows "\<exists>r. parseSecurityResponse response = Inr r \<and>
           (absentOrFalsy (getProp data (S ''categorySummary'')) \<longrightarrow>
              zeroHistogram (SecurityResult.categorySummary r) owaspCategories) \<and>
           (\<forall>v. getProp data (S ''categorySummary'') = Some v \<and> truthy v \<longrightarrow>
              SecurityResult.categorySummary r = v)"
  using assms owasp_default_complete
  by (auto simp: parseSecurityResponse_def orDefault_absent)

lemma codeSmell_categorySummary:
  assumes "parsedData response = Inr data"
  shows "\<exists>r. parseCodeSmellResponse response = Inr r \<and>
           (absentOrFalsy (getProp data (S ''categorySummary'')) \<longrightarrow>
              zeroHistogram (CodeSmellResult.categorySummary r) smellCategories) \<and>
           (\<forall>v. getProp data (S ''categorySummary'') = Some v \<and> truthy v \<longrightarrow>
              CodeSmellResult.categorySummary r = v)"
  using assms smell_default_complete
  by (auto simp: parseCodeSmellResponse_def orDefault_absent)

lemma bugFinder_totalCount:
  assumes "parsedData response = Inr data"
  shows "\<exists>r. parseBugFinderResponse response = Inr r \<and>
           (\<forall>v. getProp data (S ''totalCount'') = Some v \<and> truthy v \<longrightarrow>
              BugFinderResult.totalCount r = v) \<and>
           (\<forall>vs. getProp data (S ''totalCount'') = None \<and>
                 getProp data (S ''bugs'') = Some (JArray vs) \<longrightarrow>
              BugFinderResult.totalCount r = JNumber (of_nat (length vs))) \<and>
           (getProp data (S ''totalCount'') = None \<and> getProp data (S ''bugs'') = None \<longrightarrow>
              BugFinderResult.totalCount r = JNumber 0)"
  using assms
  by (auto simp: parseBugFinderResponse_def truthy_length zero_def simp del: truthy.simps)

lemma codeSmell_totalCount:
  assumes "parsedData response = Inr data"
  shows "\<exists>r. parseCodeSmellResponse response = Inr r \<and>
           (\<forall>vs. getProp data (S ''smells'') = Some (JArray vs) \<longrightarrow>
              CodeSmellResult.totalCount r = JNumber (of_nat (length vs))) \<and>
           (getProp data (S ''smells'') = None \<longrightarrow> CodeSmellResult.totalCount r = JNumber 0)"
  using assms
  by (auto simp: parseCodeSmellResponse_def truthy_length zero_def simp del: truthy.simps)

lemma security_totalCount:
  assumes "parsedData response = Inr data"
  shows "\<exists>r. parseSecurityResponse response = Inr r \<and>
           (\<forall>vs. getProp data (S ''vulnerabilities'') = Some (JArray vs) \<longrightarrow>
              SecurityResult.totalCount r = JNumber (of_nat (length vs))) \<and>
           (getProp data (S ''vulnerabilities'') = None \<longrightarrow>
              SecurityResult.totalCount r = JNumber 0)"
  using assms
  by (auto simp: parseSecurityResponse_def truthy_length zero_def simp del: truthy.simps)

text \<open>A field that the response lacks carries its default.\<close>

lemma explainer_defaults:
  assumes "parsedData response = Inr data"
  shows "\<exists>r. parseExplainerResponse response = Inr r \<and>
           (getProp data (S ''explanations'') = None \<longrightarrow> explanations r = JArray []) \<and>
           (getProp data (S ''summary'') = None \<longrightarrow>
              summary r = JString (S ''Analysis completed.''))"
  using assms by (simp add: parseExplainerResponse_def)

lemma bugFinder_defaults:
  assumes "parsedData response = Inr data"
  shows "\<exists>r. parseBugFinderResponse response = Inr r \<and>
           (getProp data (S ''bugs'') = None \<longrightarrow> bugs r = JArray []) \<and>
           (getProp data (S ''totalCount'') = None \<and> getProp data (S ''bugs'') = None \<longrightarrow>
              BugFinderResult.totalCount r = JNumber 0) \<and>
           (getProp data (S ''severitySummary'') = None \<longrightarrow>
              BugFinderResult.severitySummary r =
                JObject [(S ''critical'', JNumber 0), (S ''high'', JNumber 0),
                         (S ''medium'', JNumber 0), (S ''low'', JNumber 0)])"
  using assms by (simp add: parseBugFinderResponse_def zero_def)

lemma refactoring_defaults:
  assumes "parsedData response = Inr data"
  shows "\<exists>r. parseRefactoringResponse response = Inr r \<and>
           (getProp data (S ''suggestions'') = None \<longrightarrow> suggestions r = JArray []) \<and>
           (getProp data (S ''overallScore'') = None \<longrightarrow> overallScore r = JNumber 70)"
  using assms by (simp add: parseRefactoringResponse_def)

lemma codeSmell_defaults:
  assumes "parsedData response = Inr data"
  shows "\<exists>r. parseCodeSmellResponse response = Inr r \<and>
           (getProp data (S ''smells'') = None \<longrightarrow>
              smells r = JArray [] \<and> CodeSmellResult.totalCount r = JNumber 0) \<and>
           (getProp data (S ''categorySummary'') = None \<longrightarrow>
              CodeSmellResult.categorySummary r =
                JObject [(S ''bloaters'', JNumber 0), (S ''oo-abusers'', JNumber 0),
                         (S ''change-preventers'', JNumber 0), (S ''dispensables'', JNumber 0),
                         (S ''couplers'', JNumber 0)]) \<and>
           (getProp data (S ''overallHealthScore'') = None \<longrightarrow>
              overallHealthScore r = JNumber 70)"
  using assms by (simp add: parseCodeSmellResponse_def zero_def)

lemma complexity_defaults:
  assumes "parsedData response = Inr data"
  shows "\<exists>r. parseComplexityResponse response = Inr r \<and>
           (getProp data (S ''functions'') = None \<longrightarrow> functions r = JArray []) \<and>
           (getProp data (S ''overallMetrics'') = None \<longrightarrow>
              overallMetrics r =
                JObject [(S ''averageCyclomaticComplexity'', JNumber 0),
                         (S ''averageCognitiveComplexity'', JNumber 0),
                         (S ''maxNestingDepth'', JNumber 0), (S ''totalFunctions'', JNumber 0),
                         (S ''complexFunctions'', JNumber 0)]) \<and>
           (getProp data (S ''maintainabilityIndex'') = None \<longrightarrow>
              maintainabilityIndex r = JNumber 70) \<and>
           (getProp data (S ''recommendations'') = None \<longrightarrow>
              ComplexityResult.recommendations r = JArray [])"
  using assms by (simp add: parseComplexityResponse_def zero_def)

lemma security_defaults:
  assumes "parsedData response = Inr data"
  shows "\<exists>r. parseSecurityResponse response = Inr r \<and>
           (getProp data (S ''vulnerabilities'') = None \<longrightarrow>
              vulnerabilities r = JArray [] \<and> SecurityResult.totalCount r = JNumber 0) \<and>
           (getProp data (S ''severitySummary'') = None \<longrightarrow>
              SecurityResult.severitySummary r =
                JObject [(S ''critical'', JNumber 0), (S ''high'', JNumber 0),
                         (S ''medium'', JNumber 0), (S ''low'', JNumber 0),
                         (S ''info'', JNumber 0)]) \<and>
           (getProp data (S ''categorySummary'') = None \<longrightarrow>
              SecurityResult.categorySummary r =
                JObject [(S ''injection'', JNumber 0), (S ''broken-auth'', JNumber 0),
                         (S ''sensitive-data'', JNumber 0), (S ''xxe'', JNumber 0),
                         (S ''broken-access'', JNumber 0), (S ''security-misconfig'', JNumber 0),
                         (S ''xss'', JNumber 0), (S ''insecure-deserialization'', JNumber 0),
                         (S ''vulnerable-components'', JNumber 0),
                         (S ''logging-monitoring'', JNumber 0)]) \<and>
           (getProp data (S ''securityScore'') = None \<longrightarrow> securityScore r = JNumber 70) \<and>
           (getProp data (S ''recommendations'') = None \<longrightarrow>
              SecurityResult.recommendations r = JArray [])"
  using assms by (simp add: parseSecurityResponse_def zero_def)

text \<open>The six parsers on the response \<^verbatim>\<open>{}\<close>.\<close>

lemma empty_explainer:
  "parseExplainerResponse (S ''{}'') =
     Inr \<lparr> explanations = JArray [], summary = JString (S ''Analysis completed.'') \<rparr>"
  by (simp add: parseExplainerResponse_def parser_eval)

lemma empty_bugFinder:
  "parseBugFinderResponse (S ''{}'') =
     Inr \<lparr> bugs = JArray [], BugFinderResult.totalCount = JNumber 0,
           BugFinderResult.severitySummary =
             JObject [(S ''critical'', JNumber 0), (S ''high'', JNumber 0),
                      (S ''medium'', JNumber 0), (S ''low'', JNumber 0)] \<rparr>"
  by (simp add: parseBugFinderResponse_def parser_eval)

lemma empty_refactoring:
  "parseRefactoringResponse (S ''{}'') =
     Inr \<lparr> suggestions = JArray [], overallScore = JNumber 70 \<rparr>"
  by (simp add: parseRefactoringResponse_def parser_eval)

lemma empty_codeSmell:
  "parseCodeSmellResponse (S ''{}'') =
     Inr \<lparr> smells = JArray [], CodeSmellResult.totalCount = JNumber 0,
           CodeSmellResult.categorySummary =
             JObject [(S ''bloaters'', JNumber 0), (S ''oo-abusers'', JNumber 0),
                      (S ''change-preventers'', JNumber 0), (S ''dispensables'', JNumber 0),
                      (S ''couplers'', JNumber 0)],
           overallHealthScore = JNumber 70 \<rparr>"
  by (simp add: parseCodeSmellResponse_def parser_eval)

lemma empty_complexity:
  "parseComplexityResponse (S ''{}'') =
     Inr \<lparr> functions = JArray [],
           overallMetrics =
             JObject [(S ''averageCyclomaticComplexity'', JNumber 0),
                      (S ''averageCognitiveComplexity'', JNumber 0),
                      (S ''maxNestingDepth'', JNumber 0), (S ''totalFunctions'', JNumber 0),
                      (S ''complexFunctions'', JNumber 0)],
           maintainabilityIndex = JNumber 70,
           ComplexityResult.recommendations = JArray [] \<rparr>"
  by (simp add: parseComplexityResponse_def parser_eval)

lemma empty_security:
  "parseSecurityResponse (S ''{}'') =
     Inr \<lparr> vulnerabilities = JArray [], SecurityResult.totalCount = JNumber 0,
           SecurityResult.severitySummary =
             JObject [(S ''critical'', JNumber 0), (S ''high'', JNumber 0),
                      (S ''medium'', JNumber 0), (S ''low'', JNumber 0), (S ''info'', JNumber 0)],
           SecurityResult.categorySummary =
             JObject [(S ''injection'', JNumber 0), (S ''broken-auth'', JNumber 0),
                      (S ''sensitive-data'', JNumber 0), (S ''xxe'', JNumber 0),
                      (S ''broken-access'', JNumber 0), (S ''security-misconfig'', JNumber 0),
                      (S ''xss'', JNumber 0), (S ''insecure-deserialization'', JNumber 0),
                      (S ''vulnerable-components'', JNumber 0),
                      (S ''logging-monitoring'', JNumber 0)],
           securityScore = JNumber 70,
           SecurityResult.recommendations = JArray [] \<rparr>"
  by (simp add: parseSecurityResponse_def parser_eval)


section \<open>Claims about the response parsers\<close>

text \<open>
  C1, as stated: whenever the cleaned response parses, the \<^verbatim>\<open>categorySummary\<close> of the
  \<^verbatim>\<open>SecurityResult\<close> has all ten OWASP keys, whatever subset the response supplied.  It
  does not: the response below parses, supplies the key \<^verbatim>\<open>injection\<close> only, and its map is
  the \<^verbatim>\<open>categorySummary\<close> of the result, without the key \<^verbatim>\<open>broken-auth\<close>.
\<close>

theorem partial_categorySummary_is_forwarded:
  \<open>parseSecurityResponse (S ''{"categorySummary": {"injection": 1}}'') =
     Inr \<lparr> vulnerabilities = JArray [], SecurityResult.totalCount = JNumber 0,
           SecurityResult.severitySummary =
             JObject [(S ''critical'', JNumber 0), (S ''high'', JNumber 0),
                      (S ''medium'', JNumber 0), (S ''low'', JNumber 0), (S ''info'', JNumber 0)],
           SecurityResult.categorySummary = JObject [(S ''injection'', JNumber 1)],
           securityScore = JNumber 70,
           SecurityResult.recommendations = JArray [] \<rparr> \<and>
   \<not> hasNumber (JObject [(S ''injection'', JNumber 1)]) (S ''broken-auth'') \<and>
   S ''broken-auth'' \<in> set owaspCategories\<close>
  by (simp add: parseSecurityResponse_def parser_eval hasNumber_def owaspCategories_def)

text \<open>
  C1, amended: for every response whose cleaned text parses to a value other than
  \<^verbatim>\<open>null\<close>, the \<^verbatim>\<open>categorySummary\<close> of the \<^verbatim>\<open>SecurityResult\<close> has all ten OWASP keys, each
  with the number 0, when the response has no \<^verbatim>\<open>categorySummary\<close> or a falsy one; a truthy
  \<^verbatim>\<open>categorySummary\<close> of the response is the \<^verbatim>\<open>categorySummary\<close> of the result as it is.
  The same holds of the \<^verbatim>\<open>CodeSmellResult\<close> and its five keys.
\<close>

theorem categorySummary_complete_or_forwarded:
  assumes "JSON_parse (clean response) = Inr data" and "data \<noteq> JNull"
  shows "(\<exists>r. parseSecurityResponse response = Inr r \<and>
            (absentOrFalsy (getProp data (S ''categorySummary'')) \<longrightarrow>
               zeroHistogram (SecurityResult.categorySummary r) owaspCategories) \<and>
            (\<forall>v. getProp data (S ''categorySummary'') = Some v \<and> truthy v \<longrightarrow>
               SecurityResult.categorySummary r = v)) \<and>
         (\<exists>r. parseCodeSmellResponse response = Inr r \<and>
            (absentOrFalsy (getProp data (S ''categorySummary'')) \<longrightarrow>
               zeroHistogram (CodeSmellResult.categorySummary r) smellCategories) \<and>
            (\<forall>v. getProp data (S ''categorySummary'') = Some v \<and> truthy v \<longrightarrow>
               CodeSmellResult.categorySummary r = v))"
proof -
  have "parsedData response = Inr data" using assms by (simp add: parsedData_Inr)
  then show ?thesis
    using security_categorySummary[of response data] codeSmell_categorySummary[of response data]
    by blast
qed

theorem categorySummary_complete_or_forwarded_witness:
  \<open>JSON_parse (clean (S ''{}'')) = Inr (JObject []) \<and> JObject [] \<noteq> JNull \<and>
   absentOrFalsy (getProp (JObject []) (S ''categorySummary'')) \<and>
   (\<exists>r. parseSecurityResponse (S ''{}'') = Inr r \<and>
        zeroHistogram (SecurityResult.categorySummary r) owaspCategories) \<and>
   (\<exists>r. parseCodeSmellResponse (S ''{}'') = Inr r \<and>
        zeroHistogram (CodeSmellResult.categorySummary r) smellCategories) \<and>
   JSON_parse (clean (S ''{"categorySummary": {"injection": 1}}'')) =
     Inr (JObject [(S ''categorySummary'', JObject [(S ''injection'', JNumber 1)])]) \<and>
   (\<exists>r. parseSecurityResponse (S ''{"categorySummary": {"injection": 1}}'') = Inr r \<and>
        SecurityResult.categorySummary r = JObject [(S ''injection'', JNumber 1)])\<close>
proof -
  have p: "JSON_parse (clean (S ''{}'')) = Inr (JObject [])" by (simp add: parser_eval)
  have n: "JObject [] \<noteq> JNull" by simp
  have a: "absentOrFalsy (getProp (JObject []) (S ''categorySummary''))"
    by (simp add: absentOrFalsy_def)
  let ?data = "JObject [(S ''categorySummary'', JObject [(S ''injection'', JNumber 1)])]"
  have p': \<open>JSON_parse (clean (S ''{"categorySummary": {"injection": 1}}'')) = Inr ?data\<close>
    by (simp add: parser_eval)
  have n': "?data \<noteq> JNull" by simp
  have a': "getProp ?data (S ''categorySummary'') = Some (JObject [(S ''injection'', JNumber 1)]) \<and>
            truthy (JObject [(S ''injection'', JNumber 1)])"
    by simp
  from categorySummary_complete_or_forwarded[OF p' n'] obtain r where
    r: \<open>parseSecurityResponse (S ''{"categorySummary": {"injection": 1}}'') = Inr r\<close>
      "\<forall>v. getProp ?data (S ''categorySummary'') = Some v \<and> truthy v \<longrightarrow>
           SecurityResult.categorySummary r = v"
    by (elim exE conjE) (rule that; assumption)
  have "SecurityResult.categorySummary r = JObject [(S ''injection'', JNumber 1)]"
    using r(2) a' by blast
  then show ?thesis
    using categorySummary_complete_or_forwarded[OF p n] p n a p' r(1) by blast
qed

text \<open>
  C2, as stated: a parser throws only when the cleaned text is not parseable as JSON.  It
  also throws on the response \<^verbatim>\<open>null\<close>, which is parseable: the first property read of
  the \<^verbatim>\<open>try\<close> block fails on \<^verbatim>\<open>null\<close> and the \<^verbatim>\<open>catch\<close> block rethrows.
\<close>

theorem null_response_is_parseable_but_rejected:
  "JSON_parse (clean (S ''null'')) = Inr JNull \<and>
   parseExplainerResponse (S ''null'') = Inl FailedToParse \<and>
   parseBugFinderResponse (S ''null'') = Inl FailedToParse \<and>
   parseRefactoringResponse (S ''null'') = Inl FailedToParse \<and>
   parseCodeSmellResponse (S ''null'') = Inl FailedToParse \<and>
   parseComplexityResponse (S ''null'') = Inl FailedToParse \<and>
   parseSecurityResponse (S ''null'') = Inl FailedToParse"
  by (simp add: parseExplainerResponse_def parseBugFinderResponse_def
        parseRefactoringResponse_def parseCodeSmellResponse_def parseComplexityResponse_def
        parseSecurityResponse_def parser_eval)

text \<open>
  C2, amended: each of the six parsers throws if and only if the cleaned text is not
  parseable as JSON or parses to \<^verbatim>\<open>null\<close>.  When the text parses to any other value, no
  missing or malformed field causes an error: the parser returns a result, and in it every
  field that the response lacks carries its default: the empty list, the text
  \<^verbatim>\<open>Analysis completed.\<close>, the histogram with every key at 0, the count 0, the score 70.
\<close>

theorem parsers_throw_iff_unparseable_or_null_else_default:
  "((isl (parseExplainerResponse response) \<longleftrightarrow>
       isl (JSON_parse (clean response)) \<or> JSON_parse (clean response) = Inr JNull) \<and>
    (isl (parseBugFinderResponse response) \<longleftrightarrow>
       isl (JSON_parse (clean response)) \<or> JSON_parse (clean response) = Inr JNull) \<and>
    (isl (parseRefactoringResponse response) \<longleftrightarrow>
       isl (JSON_parse (clean response)) \<or> JSON_parse (clean response) = Inr JNull) \<and>
    (isl (parseCodeSmellResponse response) \<longleftrightarrow>
       isl (JSON_parse (clean response)) \<or> JSON_parse (clean response) = Inr JNull) \<and>
    (isl (parseComplexityResponse response) \<longleftrightarrow>
       isl (JSON_parse (clean response)) \<or> JSON_parse (clean response) = Inr JNull) \<and>
    (isl (parseSecurityResponse response) \<longleftrightarrow>
       isl (JSON_parse (clean response)) \<or> JSON_parse (clean response) = Inr JNull)) \<and>
   (\<forall>data. JSON_parse (clean response) = Inr data \<and> data \<noteq> JNull \<longrightarrow>
      (\<exists>r. parseExplainerResponse response = Inr r \<and>
         (getProp data (S ''explanations'') = None \<longrightarrow> explanations r = JArray []) \<and>
         (getProp data (S ''summary'') = None \<longrightarrow>
            summary r = JString (S ''Analysis completed.''))) \<and>
      (\<exists>r. parseBugFinderResponse response = Inr r \<and>
         (getProp data (S ''bugs'') = None \<longrightarrow> bugs r = JArray []) \<and>
         (getProp data (S ''totalCount'') = None \<and> getProp data (S ''bugs'') = None \<longrightarrow>
            BugFinderResult.totalCount r = JNumber 0) \<and>
         (getProp data (S ''severitySummary'') = None \<longrightarrow>
            BugFinderResult.severitySummary r =
              JObject [(S ''critical'', JNumber 0), (S ''high'', JNumber 0),
                       (S ''medium'', JNumber 0), (S ''low'', JNumber 0)])) \<and>
      (\<exists>r. parseRefactoringResponse response = Inr r \<and>
         (getProp data (S ''suggestions'') = None \<longrightarrow> suggestions r = JArray []) \<and>
         (getProp data (S ''overallScore'') = None \<longrightarrow> overallScore r = JNumber 70)) \<and>
      (\<exists>r. parseCodeSmellResponse response = Inr r \<and>
         (getProp data (S ''smells'') = None \<longrightarrow>
            smells r = JArray [] \<and> CodeSmellResult.totalCount r = JNumber 0) \<and>
         (getProp data (S ''categorySummary'') = None \<longrightarrow>
            CodeSmellResult.categorySummary r =
              JObject [(S ''bloaters'', JNumber 0), (S ''oo-abusers'', JNumber 0),
                       (S ''change-preventers'', JNumber 0), (S ''dispensables'', JNumber 0),
                       (S ''couplers'', JNumber 0)]) \<and>
         (getProp data (S ''overallHealthScore'') = None \<longrightarrow>
            overallHealthScore r = JNumber 70)) \<and>
      (\<exists>r. parseComplexityResponse response = Inr r \<and>
         (getProp data (S ''functions'') = None \<longrightarrow> functions r = JArray []) \<and>
         (getProp data (S ''overallMetrics'') = None \<longrightarrow>
            overallMetrics r =
              JObject [(S ''averageCyclomaticComplexity'', JNumber 0),
                       (S ''averageCognitiveComplexity'', JNumber 0),
                       (S ''maxNestingDepth'', JNumber 0), (S ''totalFunctions'', JNumber 0),
                       (S ''complexFunctions'', JNumber 0)]) \<and>
         (getProp data (S ''maintainabilityIndex'') = None \<longrightarrow>
            maintainabilityIndex r = JNumber 70) \<and>
         (getProp data (S ''recommendations'') = None \<longrightarrow>
            ComplexityResult.recommendations r = JArray [])) \<and>
      (\<exists>r. parseSecurityResponse response = Inr r \<and>
         (getProp data (S ''vulnerabilities'') = None \<longrightarrow>
            vulnerabilities r = JArray [] \<and> SecurityResult.totalCount r = JNumber 0) \<and>
         (getProp data (S ''severitySummary'') = None \<longrightarrow>
            SecurityResult.severitySummary r =
              JObject [(S ''critical'', JNumber 0), (S ''high'', JNumber 0),
                       (S ''medium'', JNumber 0), (S ''low'', JNumber 0),
                       (S ''info'', JNumber 0)]) \<and>
         (getProp data (S ''categorySummary'') = None \<longrightarrow>
            SecurityResult.categorySummary r =
              JObject [(S ''injection'', JNumber 0), (S ''broken-auth'', JNumber 0),
                       (S ''sensitive-data'', JNumber 0), (S ''xxe'', JNumber 0),
                       (S ''broken-access'', JNumber 0), (S ''security-misconfig'', JNumber 0),
                       (S ''xss'', JNumber 0), (S ''insecure-deserialization'', JNumber 0),
                       (S ''vulnerable-components'', JNumber 0),
                       (S ''logging-monitoring'', JNumber 0)]) \<and>
         (getProp data (S ''securityScore'') = None \<longrightarrow> securityScore r = JNumber 70) \<and>
         (getProp data (S ''recommendations'') = None \<longrightarrow>
            SecurityResult.recommendations r = JArray [])))"
  apply (intro conjI allI impI)
             apply (simp only: explainer_isl parsedData_isl)
            apply (simp only: bugFinder_isl parsedData_isl)
           apply (simp only: refactoring_isl parsedData_isl)
          apply (simp only: codeSmell_isl parsedData_isl)
         apply (simp only: complexity_isl parsedData_isl)
        apply (simp only: security_isl parsedData_isl)
       apply (rule explainer_defaults, simp add: parsedData_Inr)
      apply (rule bugFinder_defaults, simp add: parsedData_Inr)
     apply (rule refactoring_defaults, simp add: parsedData_Inr)
    apply (rule codeSmell_defaults, simp add: parsedData_Inr)
   apply (rule complexity_defaults, simp add: parsedData_Inr)
  apply (rule security_defaults, simp add: parsedData_Inr)
  done

text \<open>
  The response \<^verbatim>\<open>{}\<close> parses to an object without fields, so every field of the results
  is at its default; the response \<^verbatim>\<open>not json at all\<close> does not parse, and the parser throws.
\<close>

theorem parsers_throw_iff_unparseable_or_null_else_default_witness:
  "JSON_parse (clean (S ''{}'')) = Inr (JObject []) \<and> JObject [] \<noteq> JNull \<and>
   (\<exists>r. parseExplainerResponse (S ''{}'') = Inr r \<and> explanations r = JArray [] \<and>
        summary r = JString (S ''Analysis completed.'')) \<and>
   (\<exists>r. parseBugFinderResponse (S ''{}'') = Inr r \<and> bugs r = JArray [] \<and>
        BugFinderResult.totalCount r = JNumber 0) \<and>
   (\<exists>r. parseRefactoringResponse (S ''{}'') = Inr r \<and> suggestions r = JArray [] \<and>
        overallScore r = JNumber 70) \<and>
   isl (JSON_parse (clean (S ''not json at all''))) \<and>
   isl (parseExplainerResponse (S ''not json at all''))"
proof -
  have p: "JSON_parse (clean (S ''{}'')) = Inr (JObject [])" by (simp add: parser_eval)
  have n: "JObject [] \<noteq> JNull" by simp
  have g: "getProp (JObject []) k = None" for k by simp
  note t = parsers_throw_iff_unparseable_or_null_else_default[of "S ''{}''", THEN conjunct2,
      THEN spec, of "JObject []", THEN mp, OF conjI[OF p n]]
  from t obtain re rb rr where
    re: "parseExplainerResponse (S ''{}'') = Inr re"
      "getProp (JObject []) (S ''explanations'') = None \<longrightarrow> explanations re = JArray []"
      "getProp (JObject []) (S ''summary'') = None \<longrightarrow>
         summary re = JString (S ''Analysis completed.'')" and
    rb: "parseBugFinderResponse (S ''{}'') = Inr rb"
      "getProp (JObject []) (S ''bugs'') = None \<longrightarrow> bugs rb = JArray []"
      "getProp (JObject []) (S ''totalCount'') = None \<and>
         getProp (JObject []) (S ''bugs'') = None \<longrightarrow> BugFinderResult.totalCount rb = JNumber 0" and
    rr: "parseRefactoringResponse (S ''{}'') = Inr rr"
      "getProp (JObject []) (S ''suggestions'') = None \<longrightarrow> suggestions rr = JArray []"
      "getProp (JObject []) (S ''overallScore'') = None \<longrightarrow> overallScore rr = JNumber 70"
    by (elim exE conjE) (rule that; assumption)
  have e: "\<exists>r. parseExplainerResponse (S ''{}'') = Inr r \<and> explanations r = JArray [] \<and>
             summary r = JString (S ''Analysis completed.'')"
    using re by simp
  have b: "\<exists>r. parseBugFinderResponse (S ''{}'') = Inr r \<and> bugs r = JArray [] \<and>
             BugFinderResult.totalCount r = JNumber 0"
    using rb by simp
  have r: "\<exists>r. parseRefactoringResponse (S ''{}'') = Inr r \<and> suggestions r = JArray [] \<and>
             overallScore r = JNumber 70"
    using rr by simp
  have u: "isl (JSON_parse (clean (S ''not json at all'')))" by (simp add: parser_eval)
  note i = parsers_throw_iff_unparseable_or_null_else_default[of "S ''not json at all''",
      THEN conjunct1, THEN conjunct1]
  have x: "isl (parseExplainerResponse (S ''not json at all''))"
    using i u by blast
  show ?thesis using p n e b r u x by (intro conjI)
qed

text \<open>
  C3: on the response \<^verbatim>\<open>{}\<close> each of the six parsers returns a result with empty finding
  and recommendation lists, every histogram key present with the number 0, \<^verbatim>\<open>totalCount\<close>
  0 where the result has one, and the score 70 for \<^verbatim>\<open>overallScore\<close>,
  \<^verbatim>\<open>overallHealthScore\<close>, \<^verbatim>\<open>maintainabilityIndex\<close> and \<^verbatim>\<open>securityScore\<close>.
\<close>

theorem empty_object_gets_every_default:
  "parseExplainerResponse (S ''{}'') =
     Inr \<lparr> explanations = JArray [], summary = JString (S ''Analysis completed.'') \<rparr> \<and>
   parseBugFinderResponse (S ''{}'') =
     Inr \<lparr> bugs = JArray [], BugFinderResult.totalCount = JNumber 0,
           BugFinderResult.severitySummary =
             JObject [(S ''critical'', JNumber 0), (S ''high'', JNumber 0),
                      (S ''medium'', JNumber 0), (S ''low'', JNumber 0)] \<rparr> \<and>
   parseRefactoringResponse (S ''{}'') =
     Inr \<lparr> suggestions = JArray [], overallScore = JNumber 70 \<rparr> \<and>
   parseCodeSmellResponse (S ''{}'') =
     Inr \<lparr> smells = JArray [], CodeSmellResult.totalCount = JNumber 0,
           CodeSmellResult.categorySummary =
             JObject [(S ''bloaters'', JNumber 0), (S ''oo-abusers'', JNumber 0),
                      (S ''change-preventers'', JNumber 0), (S ''dispensables'', JNumber 0),
                      (S ''couplers'', JNumber 0)],
           overallHealthScore = JNumber 70 \<rparr> \<and>
   parseComplexityResponse (S ''{}'') =
     Inr \<lparr> functions = JArray [],
           overallMetrics =
             JObject [(S ''averageCyclomaticComplexity'', JNumber 0),
                      (S ''averageCognitiveComplexity'', JNumber 0),
                      (S ''maxNestingDepth'', JNumber 0), (S ''totalFunctions'', JNumber 0),
                      (S ''complexFunctions'', JNumber 0)],
           maintainabilityIndex = JNumber 70,
           ComplexityResult.recommendations = JArray [] \<rparr> \<and>
   parseSecurityResponse (S ''{}'') =
     Inr \<lparr> vulnerabilities = JArray [], SecurityResult.totalCount = JNumber 0,
           SecurityResult.severitySummary =
             JObject [(S ''critical'', JNumber 0), (S ''high'', JNumber 0),
                      (S ''medium'', JNumber 0), (S ''low'', JNumber 0), (S ''info'', JNumber 0)],
           SecurityResult.categorySummary =
             JObject [(S ''injection'', JNumber 0), (S ''broken-auth'', JNumber 0),
                      (S ''sensitive-data'', JNumber 0), (S ''xxe'', JNumber 0),
                      (S ''broken-access'', JNumber 0), (S ''security-misconfig'', JNumber 0),
                      (S ''xss'', JNumber 0), (S ''insecure-deserialization'', JNumber 0),
                      (S ''vulnerable-components'', JNumber 0),
                      (S ''logging-monitoring'', JNumber 0)],
           securityScore = JNumber 70,
           SecurityResult.recommendations = JArray [] \<rparr>"
  using empty_explainer empty_bugFinder empty_refactoring empty_codeSmell empty_complexity
    empty_security
  by (intro conjI)

text \<open>
  C4: a score that the response supplies is passed through; an explicit 0 stays 0.  The
  parsers break this: \<^verbatim>\<open>||\<close> takes the number 0 for a missing value.  Each response below
  supplies the score 0, and the result carries 70.
\<close>

theorem explicit_zero_score_becomes_70:
  \<open>JSON_parse (clean (S ''{"overallScore": 0, "suggestions": []}'')) =
     Inr (JObject [(S ''overallScore'', JNumber 0), (S ''suggestions'', JArray [])]) \<and>
   parseRefactoringResponse (S ''{"overallScore": 0, "suggestions": []}'') =
     Inr \<lparr> suggestions = JArray [], overallScore = JNumber 70 \<rparr> \<and>
   (\<exists>r. parseCodeSmellResponse (S ''{"overallHealthScore": 0}'') = Inr r \<and>
        overallHealthScore r = JNumber 70) \<and>
   (\<exists>r. parseComplexityResponse (S ''{"maintainabilityIndex": 0}'') = Inr r \<and>
        maintainabilityIndex r = JNumber 70) \<and>
   (\<exists>r. parseSecurityResponse (S ''{"securityScore": 0}'') = Inr r \<and>
        securityScore r = JNumber 70)\<close>
  by (simp add: parseRefactoringResponse_def parseCodeSmellResponse_def
        parseComplexityResponse_def parseSecurityResponse_def parser_eval)

text \<open>
  C5, as stated: \<^verbatim>\<open>totalCount\<close> is the explicit value of the response when present, in all
  three results.  Not in the \<^verbatim>\<open>SecurityResult\<close>: the response below says 5, the list is
  empty, and the result says 0.
\<close>

theorem explicit_totalCount_is_not_read:
  \<open>JSON_parse (clean (S ''{"vulnerabilities": [], "totalCount": 5}'')) =
     Inr (JObject [(S ''vulnerabilities'', JArray []), (S ''totalCount'', JNumber 5)]) \<and>
   (\<exists>r. parseSecurityResponse (S ''{"vulnerabilities": [], "totalCount": 5}'') = Inr r \<and>
        SecurityResult.totalCount r = JNumber 0)\<close>
  by (simp add: parseSecurityResponse_def parser_eval)

text \<open>
  C5, amended: for every response whose cleaned text parses to a value other than
  \<^verbatim>\<open>null\<close>, \<^verbatim>\<open>BugFinderResult.totalCount\<close> is the \<^verbatim>\<open>totalCount\<close> of the response when one
  is present and truthy, and, when the response has no \<^verbatim>\<open>totalCount\<close>, the length of the
  \<^verbatim>\<open>bugs\<close> list, or 0 without the list; \<^verbatim>\<open>CodeSmellResult.totalCount\<close> and
  \<^verbatim>\<open>SecurityResult.totalCount\<close> are the length of the \<^verbatim>\<open>smells\<close> and of the
  \<^verbatim>\<open>vulnerabilities\<close> list, or 0 without the list, whatever \<^verbatim>\<open>totalCount\<close> the response has.
  Nothing is said of a \<^verbatim>\<open>totalCount\<close> that is present and falsy.
\<close>

theorem totalCount_sources:
  assumes "JSON_parse (clean response) = Inr data" and "data \<noteq> JNull"
  shows "(\<exists>r. parseBugFinderResponse response = Inr r \<and>
            (\<forall>v. getProp data (S ''totalCount'') = Some v \<and> truthy v \<longrightarrow>
               BugFinderResult.totalCount r = v) \<and>
            (\<forall>vs. getProp data (S ''totalCount'') = None \<and>
                  getProp data (S ''bugs'') = Some (JArray vs) \<longrightarrow>
               BugFinderResult.totalCount r = JNumber (of_nat (length vs))) \<and>
            (getProp data (S ''totalCount'') = None \<and> getProp data (S ''bugs'') = None \<longrightarrow>
               BugFinderResult.totalCount r = JNumber 0)) \<and>
         (\<exists>r. parseCodeSmellResponse response = Inr r \<and>
            (\<forall>vs. getProp data (S ''smells'') = Some (JArray vs) \<longrightarrow>
               CodeSmellResult.totalCount r = JNumber (of_nat (length vs))) \<and>
            (getProp data (S ''smells'') = None \<longrightarrow> CodeSmellResult.totalCount r = JNumber 0)) \<and>
         (\<exists>r. parseSecurityResponse response = Inr r \<and>
            (\<forall>vs. getProp data (S ''vulnerabilities'') = Some (JArray vs) \<longrightarrow>
               SecurityResult.totalCount r = JNumber (of_nat (length vs))) \<and>
            (getProp data (S ''vulnerabilities'') = None \<longrightarrow>
               SecurityResult.totalCount r = JNumber 0))"
proof -
  have "parsedData response = Inr data" using assms by (simp add: parsedData_Inr)
  then show ?thesis
    using bugFinder_totalCount[of response data] codeSmell_totalCount[of response data]
      security_totalCount[of response data]
    by blast
qed

text \<open>
  The first response has a truthy \<^verbatim>\<open>totalCount\<close>, a \<^verbatim>\<open>smells\<close> list and no
  \<^verbatim>\<open>vulnerabilities\<close>; the second has a \<^verbatim>\<open>bugs\<close> list and no \<^verbatim>\<open>totalCount\<close>.
\<close>

theorem totalCount_sources_witness:
  \<open>JSON_parse (clean (S ''{"bugs": [1], "smells": [1, 2], "totalCount": 3}'')) =
     Inr (JObject [(S ''bugs'', JArray [JNumber 1]),
                   (S ''smells'', JArray [JNumber 1, JNumber 2]),
                   (S ''totalCount'', JNumber 3)]) \<and>
   (\<exists>r. parseBugFinderResponse (S ''{"bugs": [1], "smells": [1, 2], "totalCount": 3}'') = Inr r \<and>
        BugFinderResult.totalCount r = JNumber 3) \<and>
   (\<exists>r. parseCodeSmellResponse (S ''{"bugs": [1], "smells": [1, 2], "totalCount": 3}'') = Inr r \<and>
        CodeSmellResult.totalCount r = JNumber 2) \<and>
   (\<exists>r. parseSecurityResponse (S ''{"bugs": [1], "smells": [1, 2], "totalCount": 3}'') = Inr r \<and>
        SecurityResult.totalCount r = JNumber 0) \<and>
   JSON_parse (clean (S ''{"bugs": [7, 8]}'')) =
     Inr (JObject [(S ''bugs'', JArray [JNumber 7, JNumber 8])]) \<and>
   (\<exists>r. parseBugFinderResponse (S ''{"bugs": [7, 8]}'') = Inr r \<and>
        BugFinderResult.totalCount r = JNumber 2)\<close>
proof -
  let ?data = "JObject [(S ''bugs'', JArray [JNumber 1]),
                        (S ''smells'', JArray [JNumber 1, JNumber 2]),
                        (S ''totalCount'', JNumber 3)]"
  have p: \<open>JSON_parse (clean (S ''{"bugs": [1], "smells": [1, 2], "totalCount": 3}'')) = Inr ?data\<close>
    by (simp add: parser_eval)
  have n: "?data \<noteq> JNull" by simp
  have a: "getProp ?data (S ''totalCount'') = Some (JNumber 3) \<and> truthy (JNumber 3)" by simp
  have b: "getProp ?data (S ''smells'') = Some (JArray [JNumber 1, JNumber 2])" by simp
  have c: "getProp ?data (S ''vulnerabilities'') = None" by simp
  from totalCount_sources[OF p n] obtain rb rc rs where
    rb: \<open>parseBugFinderResponse (S ''{"bugs": [1], "smells": [1, 2], "totalCount": 3}'') = Inr rb\<close>
      "\<forall>v. getProp ?data (S ''totalCount'') = Some v \<and> truthy v \<longrightarrow>
           BugFinderResult.totalCount rb = v" and
    rc: \<open>parseCodeSmellResponse (S ''{"bugs": [1], "smells": [1, 2], "totalCount": 3}'') = Inr rc\<close>
      "\<forall>vs. getProp ?data (S ''smells'') = Some (JArray vs) \<longrightarrow>
            CodeSmellResult.totalCount rc = JNumber (of_nat (length vs))" and
    rs: \<open>parseSecurityResponse (S ''{"bugs": [1], "smells": [1, 2], "totalCount": 3}'') = Inr rs\<close>
      "getProp ?data (S ''vulnerabilities'') = None \<longrightarrow> SecurityResult.totalCount rs = JNumber 0"
    by (elim exE conjE) (rule that; assumption)
  let ?data2 = "JObject [(S ''bugs'', JArray [JNumber 7, JNumber 8])]"
  have p2: \<open>JSON_parse (clean (S ''{"bugs": [7, 8]}'')) = Inr ?data2\<close>
    by (simp add: parser_eval)
  have n2: "?data2 \<noteq> JNull" by simp
  have a2: "getProp ?data2 (S ''totalCount'') = None \<and>
            getProp ?data2 (S ''bugs'') = Some (JArray [JNumber 7, JNumber 8])"
    by simp
  from totalCount_sources[OF p2 n2] obtain rb2 where
    rb2: \<open>parseBugFinderResponse (S ''{"bugs": [7, 8]}'') = Inr rb2\<close>
      "\<forall>vs. getProp ?data2 (S ''totalCount'') = None \<and>
            getProp ?data2 (S ''bugs'') = Some (JArray vs) \<longrightarrow>
            BugFinderResult.totalCount rb2 = JNumber (of_nat (length vs))"
    by (elim exE conjE) (rule that; assumption)
  have "BugFinderResult.totalCount rb2 = JNumber (of_nat (length [JNumber 7, JNumber 8]))"
    using rb2(2) a2 by blast
  then have t2: "BugFinderResult.totalCount rb2 = JNumber 2" by simp
  have "BugFinderResult.totalCount rb = JNumber 3" using rb(2) a by blast
  moreover have "CodeSmellResult.totalCount rc = JNumber (of_nat (length [JNumber 1, JNumber 2]))"
    using rc(2) b by blast
  then have "CodeSmellResult.totalCount rc = JNumber 2" by simp
  moreover have "SecurityResult.totalCount rs = JNumber 0" using rs(2) c by blast
  ultimately show ?thesis using p rb(1) rc(1) rs(1) p2 rb2(1) t2 by blast
qed


section \<open>Facts about the detector\<close>

lemma detect_firstMatch: "trim code \<noteq> [] \<Longrightarrow> detectLanguage code = firstMatch code"
  by (auto simp: detectLanguage_def firstMatch_def signatureTable_def Let_def trim_def)

lemma detect_in_tags: "detectLanguage code \<in> set languageTags"
  by (simp add: detectLanguage_def languageTags_def Let_def)

lemma detect_blank: "trim code = [] \<Longrightarrow> detectLanguage code = S ''javascript''"
  by (simp add: detectLanguage_def)

lemma detect_none: "\<not> anySignature code \<Longrightarrow> detectLanguage code = S ''javascript''"
  by (simp add: detectLanguage_def anySignature_def signatureTable_def Let_def)

lemma matchesAt_iff: "matchesAt r ps \<longleftrightarrow> (\<exists>x\<in>set ps. matches r x \<noteq> [])"
  by (induction ps) auto

lemma starts_append: "\<exists>p'. (p', ys) \<in> set (starts p (xs @ ys))"
proof (induction xs arbitrary: p)
  case Nil
  show ?case by (cases ys) auto
next
  case (Cons x xs)
  then show ?case by (metis append_Cons list.set_intros(2) starts.simps(2))
qed

text \<open>The probe \<^verbatim>\<open>/:\s*$/\<close> matches every text that ends with a colon.\<close>

lemma colon_probe: "endsWithColon l \<Longrightarrow> test (seqs [L '':'', Star Space, Eol]) l"
proof -
  assume "endsWithColon l"
  then obtain xs where l: "l = xs @ [58]"
    unfolding endsWithColon_def by (metis append_butlast_last_id)
  obtain p' where p': "(p', [58]) \<in> set (starts None l)"
    using starts_append[of "[58]" None xs] l by auto
  have "matches (seqs [L '':'', Star Space, Eol]) (p', [58]) \<noteq> []"
    by (simp add: matches.simps startsWith_def)
  with p' show ?thesis unfolding test_def matchesAt_iff by blast
qed

lemma detect_colon:
  assumes "trim code \<noteq> []" and "endsWithColon (firstLine (linesOf code))"
  shows "detectLanguage code = S ''python''"
proof -
  have "pythonSig (linesOf code) (codeContentOf code)"
    unfolding pythonSig_def using colon_probe[OF assms(2)] by blast
  moreover have "code \<noteq> []" using assms(1) by (auto simp: trim_def)
  ultimately show ?thesis using assms(1) by (simp add: detectLanguage_def Let_def)
qed

text \<open>
  \<^verbatim>\<open>lines[0]\<close> is the first line of the trimmed text, trimmed.  When the first line of the
  raw text is not blank, \<^verbatim>\<open>lines[0]\<close> is that line, trimmed.
\<close>

lemma split_nl_nonempty: "split_nl s \<noteq> []"
  by (induction s) (auto split: list.splits)

lemma firstLine_split: "firstLine (split_nl s) = takeWhile (\<lambda>c. c \<noteq> 10) s"
proof (induction s)
  case Nil
  show ?case by (simp add: firstLine_def)
next
  case (Cons c cs)
  then show ?case using split_nl_nonempty[of cs]
    by (auto simp: firstLine_def split: list.splits)
qed

lemma firstLine_map: "ls \<noteq> [] \<Longrightarrow> firstLine (map f ls) = f (firstLine ls)"
  by (cases ls) (simp_all add: firstLine_def)

lemma firstLine_linesOf:
  "firstLine (linesOf code) = trim (takeWhile (\<lambda>c. c \<noteq> 10) (trim code))"
  by (simp add: linesOf_def trimmedCodeOf_def firstLine_map split_nl_nonempty firstLine_split)

lemma first_line_of_trimmed:
  assumes "trim (takeWhile (\<lambda>c. c \<noteq> 10) code) \<noteq> []"
  shows "trim (takeWhile (\<lambda>c. c \<noteq> 10) (trim code)) = trim (takeWhile (\<lambda>c. c \<noteq> 10) code)"
proof -
  let ?N = "\<lambda>c::jschar. c \<noteq> 10"
  let ?P = isWhiteSpace
  let ?a = "takeWhile ?N code"
  let ?b = "dropWhile ?N code"
  let ?a' = "dropWhile ?P ?a"
  have P10: "?P 10" by (simp add: isWhiteSpace_def)
  have code: "code = ?a @ ?b" by simp
  have b: "?b = [] \<or> hd ?b = 10" using hd_dropWhile[of ?N code] by auto
  have "\<not> list_all ?P ?a" using assms trim_blank by blast
  then obtain x where x: "x \<in> set ?a" "\<not> ?P x" by (auto simp: list_all_iff)
  have dw: "dropWhile ?P code = ?a' @ ?b"
    using dropWhile_append1[of x ?a ?P ?b] x by simp
  have a'N: "\<forall>y\<in>set ?a'. ?N y"
    using set_dropWhileD set_takeWhileD by metis
  have trim_a: "trim ?a = rev (dropWhile ?P (rev ?a'))" by (simp add: trim_def)
  have trim_code: "trim code = rev (dropWhile ?P (rev ?b @ rev ?a'))"
    by (simp add: trim_def dw)
  show ?thesis
  proof (cases "list_all ?P ?b")
    case True
    then have "dropWhile ?P (rev ?b @ rev ?a') = dropWhile ?P (rev ?a')"
      by (intro dropWhile_append2) (auto simp: list_all_iff)
    then have tc: "trim code = trim ?a" using trim_code trim_a by simp
    have "\<forall>y\<in>set (trim ?a). ?N y"
      unfolding trim_a using a'N set_dropWhileD by fastforce
    then have tw: "takeWhile ?N (trim ?a) = trim ?a" by (simp add: takeWhile_eq_all_conv)
    show ?thesis by (simp only: tc tw trim_idem)
  next
    case False
    then obtain y where y: "y \<in> set (rev ?b)" "\<not> ?P y" by (auto simp: list_all_iff)
    have "dropWhile ?P (rev ?b @ rev ?a') = dropWhile ?P (rev ?b) @ rev ?a'"
      using dropWhile_append1[of y "rev ?b" ?P "rev ?a'"] y by simp
    then have tc: "trim code = ?a' @ rev (dropWhile ?P (rev ?b))" using trim_code by simp
    let ?d = "rev (dropWhile ?P (rev ?b))"
    have "dropWhile ?P (rev ?b) \<noteq> []" using y by (auto simp: dropWhile_eq_Nil_conv)
    then have dne: "?d \<noteq> []" by simp
    have "suffix (dropWhile ?P (rev ?b)) (rev ?b)" by (rule suffix_dropWhile)
    then have "prefix ?d ?b" by (simp add: suffix_to_prefix)
    then obtain zs where zs: "?b = ?d @ zs" by (auto simp: prefix_def)
    have bne: "?b \<noteq> []" using False by (cases "?b = []") simp_all
    have hb: "hd ?b = 10" using b bne by blast
    have "hd ?d = hd ?b" using zs dne by (metis hd_append2)
    then have "hd ?d = 10" by (simp only: hb)
    then have "takeWhile ?N ?d = []" using dne by (cases ?d) auto
    then have "takeWhile ?N (?a' @ ?d) = ?a'"
      using a'N by (simp add: takeWhile_append2)
    then have "trim (takeWhile ?N (trim code)) = trim ?a'" by (simp only: tc)
    also have "\<dots> = trim ?a" by (simp add: trim_def)
    finally show ?thesis .
  qed
qed

lemma raw_first_line:
  assumes "endsWithColon (trim (firstLine (split_nl code)))"
  shows "firstLine (linesOf code) = trim (firstLine (split_nl code))"
proof -
  have "trim (takeWhile (\<lambda>c. c \<noteq> 10) code) \<noteq> []"
    using assms by (simp add: endsWithColon_def firstLine_split)
  then show ?thesis
    by (simp add: firstLine_linesOf firstLine_split first_line_of_trimmed)
qed

lemma example_def: "detectLanguage (S ''def f():\<newline>  return x'') = S ''python''"
  by (simp add: det_eval pythonSig_def str_eval re_eval)

lemma example_import:
  shows "trim (S ''import os'') \<noteq> []"
    and "pythonSig (linesOf (S ''import os'')) (codeContentOf (S ''import os''))"
    and "javascriptSig (codeContentOf (S ''import os''))"
    and "detectLanguage (S ''import os'') = S ''python''"
  by (simp_all add: det_eval pythonSig_def javascriptSig_def str_eval re_eval)

lemma example_comment:
  shows "trim (S ''// note:\<newline>public class Foo {}'') \<noteq> []"
    and "firstLine (linesOf (S ''// note:\<newline>public class Foo {}'')) = S ''// note:''"
    and "endsWithColon (firstLine (linesOf (S ''// note:\<newline>public class Foo {}'')))"
    and "codeContentOf (S ''// note:\<newline>public class Foo {}'') = S ''public class Foo {}''"
    and "javaSig (codeContentOf (S ''// note:\<newline>public class Foo {}''))"
  by (simp_all add: det_eval endsWithColon_def javaSig_def str_eval re_eval)

lemma example_none: "\<not> anySignature (S ''x'')"
  by (simp add: anySignature_def signatureTable_def det_eval sig_eval str_eval re_eval)

section \<open>Claims about the detector\<close>

text \<open>
  C6: \<^verbatim>\<open>detectLanguage\<close> returns one of the ten language tags for every string, and the tag
  \<^verbatim>\<open>javascript\<close> when the string is empty, consists of white space only, or matches no
  signature.  (The model is a total function: the source has no statement that can throw,
  \<^verbatim>\<open>lines[0]\<close> exists because \<^verbatim>\<open>split\<close> never returns an empty list.)
\<close>

theorem detectLanguage_total_with_fallback:
  "detectLanguage code \<in> set languageTags \<and>
   (list_all isWhiteSpace code \<longrightarrow> detectLanguage code = S ''javascript'') \<and>
   (\<not> anySignature code \<longrightarrow> detectLanguage code = S ''javascript'')"
  using detect_in_tags[of code] detect_blank[OF trim_blank, of code] detect_none[of code]
  by blast

theorem detectLanguage_total_with_fallback_witness:
  "list_all isWhiteSpace (S '''') \<and> detectLanguage (S '''') = S ''javascript'' \<and>
   list_all isWhiteSpace (S '' \<newline>  '') \<and> detectLanguage (S '' \<newline>  '') = S ''javascript'' \<and>
   \<not> anySignature (S ''x'') \<and> detectLanguage (S ''x'') = S ''javascript'' \<and>
   detectLanguage (S ''x'') \<in> set languageTags"
proof -
  have a: "list_all isWhiteSpace (S '''')" by simp
  have b: "list_all isWhiteSpace (S '' \<newline>  '')" by (simp add: isWhiteSpace_def)
  show ?thesis
    using a b example_none
      detectLanguage_total_with_fallback[of "S ''''"]
      detectLanguage_total_with_fallback[of "S '' \<newline>  ''"]
      detectLanguage_total_with_fallback[of "S ''x''"]
    by blast
qed

text \<open>
  C7, as stated: the input \<^verbatim>\<open>def f():\n  return x\<close> contains both Python-signature and
  JavaScript-signature tokens.  It does not: it matches the Python signature and, of the
  later ones, the Ruby signature, but no probe of the JavaScript signature.
\<close>

theorem def_example_matches_no_javascript_probe:
  "pythonSig (linesOf (S ''def f():\<newline>  return x'')) (codeContentOf (S ''def f():\<newline>  return x'')) \<and>
   rubySig (codeContentOf (S ''def f():\<newline>  return x'')) \<and>
   \<not> javascriptSig (codeContentOf (S ''def f():\<newline>  return x''))"
  by (simp add: det_eval pythonSig_def rubySig_def javascriptSig_def str_eval re_eval)

text \<open>
  C7, amended: on a string that is not blank \<^verbatim>\<open>detectLanguage\<close> returns the tag of the
  first signature that matches, in the order Python, Java, C#, C++, Go, Rust, Ruby, PHP,
  TypeScript, JavaScript.  In particular the input \<^verbatim>\<open>import os\<close>, which matches both the
  Python signature and the JavaScript signature, resolves to \<^verbatim>\<open>python\<close>, because Python is
  checked first.  The input \<^verbatim>\<open>def f():\n  return x\<close> resolves to \<^verbatim>\<open>python\<close> as well.
\<close>

theorem detectLanguage_first_match_in_priority_order:
  "(trim code \<noteq> [] \<longrightarrow> detectLanguage code = firstMatch code) \<and>
   map fst signatureTable =
     [S ''python'', S ''java'', S ''csharp'', S ''cpp'', S ''go'', S ''rust'', S ''ruby'',
      S ''php'', S ''typescript'', S ''javascript''] \<and>
   pythonSig (linesOf (S ''import os'')) (codeContentOf (S ''import os'')) \<and>
   javascriptSig (codeContentOf (S ''import os'')) \<and>
   detectLanguage (S ''import os'') = S ''python'' \<and>
   detectLanguage (S ''def f():\<newline>  return x'') = S ''python''"
proof (intro conjI impI)
  show "detectLanguage code = firstMatch code" if "trim code \<noteq> []"
    using that by (rule detect_firstMatch)
  show "map fst signatureTable =
          [S ''python'', S ''java'', S ''csharp'', S ''cpp'', S ''go'', S ''rust'', S ''ruby'',
           S ''php'', S ''typescript'', S ''javascript'']"
    by (simp add: signatureTable_def)
  show "pythonSig (linesOf (S ''import os'')) (codeContentOf (S ''import os''))"
    by (rule example_import(2))
  show "javascriptSig (codeContentOf (S ''import os''))"
    by (rule example_import(3))
  show "detectLanguage (S ''import os'') = S ''python''"
    by (rule example_import(4))
  show "detectLanguage (S ''def f():\<newline>  return x'') = S ''python''"
    by (rule example_def)
qed

text \<open>
  On the input \<^verbatim>\<open>import os\<close> the first match over the table is \<^verbatim>\<open>python\<close>, and so is the
  answer of \<^verbatim>\<open>detectLanguage\<close>.
\<close>

theorem detectLanguage_first_match_witness:
  "trim (S ''import os'') \<noteq> [] \<and>
   firstMatch (S ''import os'') = S ''python'' \<and>
   detectLanguage (S ''import os'') = firstMatch (S ''import os'')"
proof -
  have f: "firstMatch (S ''import os'') = S ''python''"
    using example_import(2)
    by (simp only: firstMatch_def signatureTable_def find.simps snd_conv fst_conv if_True
          option.case)
  have d: "detectLanguage (S ''import os'') = firstMatch (S ''import os'')"
    using detectLanguage_first_match_in_priority_order[of "S ''import os''", THEN conjunct1]
      example_import(1)
    by (rule mp)
  show ?thesis using example_import(1) f d by (intro conjI)
qed

text \<open>
  C9: for every string that is not blank and whose first line, trimmed, ends with a colon,
  \<^verbatim>\<open>detectLanguage\<close> returns \<^verbatim>\<open>python\<close>.  The first line may be read as \<^verbatim>\<open>lines[0]\<close> of
  the source, taken before the comment lines are removed, or as the first line of the raw
  input.
\<close>

theorem first_line_colon_is_python:
  assumes "trim code \<noteq> []"
    and "endsWithColon (firstLine (linesOf code)) \<or>
         endsWithColon (trim (firstLine (split_nl code)))"
  shows "detectLanguage code = S ''python''"
proof -
  have "endsWithColon (firstLine (linesOf code))"
    using assms(2) raw_first_line[of code] by auto
  with assms(1) show ?thesis by (rule detect_colon)
qed

text \<open>
  The first line below is a \<^verbatim>\<open>//\<close> comment that ends with a colon, the rest is a Java
  class and matches the Java signature; the answer is \<^verbatim>\<open>python\<close>.
\<close>

theorem first_line_colon_is_python_witness:
  "trim (S ''// note:\<newline>public class Foo {}'') \<noteq> [] \<and>
   firstLine (linesOf (S ''// note:\<newline>public class Foo {}'')) = S ''// note:'' \<and>
   endsWithColon (firstLine (linesOf (S ''// note:\<newline>public class Foo {}''))) \<and>
   codeContentOf (S ''// note:\<newline>public class Foo {}'') = S ''public class Foo {}'' \<and>
   javaSig (codeContentOf (S ''// note:\<newline>public class Foo {}'')) \<and>
   detectLanguage (S ''// note:\<newline>public class Foo {}'') = S ''python''"
  using example_comment
    first_line_colon_is_python[OF example_comment(1) disjI1[OF example_comment(3)]]
  by (intro conjI)


section \<open>Claims about fence stripping and key handling\<close>

text \<open>
  C8, as stated: the cleaning step returns every fence-free string unchanged.  It does not:
  the step ends with \<^verbatim>\<open>trim()\<close>, so a fence-free string with a leading blank comes back
  without the blank.
\<close>

theorem clean_changes_fence_free_text:
  "\<not> includes_str (S '' {}'') fence \<and> clean (S '' {}'') = S ''{}'' \<and> S ''{}'' \<noteq> S '' {}''"
  by (simp add: parser_eval)

text \<open>
  C8, amended: on a string without fence markers the cleaning step is \<^verbatim>\<open>trim\<close>, hence
  leaves the string unchanged when it has no surrounding white space; and for every
  string, cleaning twice gives the same result as cleaning once.
\<close>

theorem clean_trims_fence_free_and_is_idempotent:
  "(\<not> includes_str s fence \<longrightarrow> clean s = trim s) \<and>
   (\<not> includes_str s fence \<and> trim s = s \<longrightarrow> clean s = s) \<and>
   clean (clean s) = clean s"
  using clean_fence_free[of s] clean_idem[of s] by simp

theorem clean_trims_fence_free_witness:
  "\<not> includes_str (S ''{}'') fence \<and> trim (S ''{}'') = S ''{}'' \<and> clean (S ''{}'') = S ''{}'' \<and>
   clean (clean (S ''```json\<newline>{}\<newline>```'')) = clean (S ''```json\<newline>{}\<newline>```'')"
proof -
  have a: "\<not> includes_str (S ''{}'') fence" by (simp add: str_eval fence_def)
  have b: "trim (S ''{}'') = S ''{}''" by (simp add: str_eval)
  show ?thesis
    using a b clean_trims_fence_free_and_is_idempotent[of "S ''{}''"]
      clean_trims_fence_free_and_is_idempotent[of "S ''```json\<newline>{}\<newline>```''"]
    by simp
qed

text \<open>
  C10: some API key made of non-ASCII code units only passes the missing-key guard of
  \<^verbatim>\<open>callAI\<close> (it is not empty and not blank), and \<^verbatim>\<open>sanitizeApiKey\<close> maps it to the empty
  string.  So \<^verbatim>\<open>sanitizeApiKey\<close> does not preserve non-emptiness.
\<close>

theorem sanitizeApiKey_empties_accepted_key:
  "\<exists>apiKey. list_all (\<lambda>c. 127 < c) apiKey \<and> \<not> apiKeyMissing apiKey \<and> trim apiKey \<noteq> [] \<and>
            sanitizeApiKey apiKey = []"
proof -
  have "list_all (\<lambda>c. 127 < c) [233, 20013 :: jschar] \<and> \<not> apiKeyMissing [233, 20013] \<and>
        trim [233, 20013] \<noteq> [] \<and> sanitizeApiKey [233, 20013] = []"
    by (simp add: apiKeyMissing_def sanitizeApiKey_def str_eval)
  then show ?thesis by blast
qed

end
